theory Spec2Isabelle
  imports Main "HOL-Library.Sublist"
begin

section \<open>Python values used by \<open>app/main.py\<close>\<close>

text \<open>
  A Python \<open>str\<close> is a sequence of Unicode code points, a \<open>bytes\<close> object a sequence of
  8-bit values. Class names and encoding labels are ASCII and are kept as HOL strings.
\<close>

type_synonym ustr = "nat list"
type_synonym bytes = "char list"

definition ascii :: "string \<Rightarrow> ustr" where
  "ascii s = map of_char s"

text \<open>The exceptions that the two handlers and the functions they call can raise.\<close>

datatype py_error =
    HTTPException int string
  | ValueError
  | TypeError
  | LookupError
  | UnicodeDecodeError
  | UnicodeEncodeError
  | DataError
  | ResponseValidationError

subsection \<open>\<open>str.replace\<close> and \<open>str.join\<close>\<close>

text \<open>
  \<open>s.replace(old, new)\<close> scans \<open>s\<close> from the left and replaces the non-overlapping
  occurrences of \<open>old\<close>; with an empty \<open>old\<close> it puts \<open>new\<close> before every character and
  at the end.
\<close>

function py_replace :: "'a list \<Rightarrow> 'a list \<Rightarrow> 'a list \<Rightarrow> 'a list" where
  "py_replace old new s =
     (if old = [] then new @ concat (map (\<lambda>c. c # new) s)
      else if s = [] then []
      else if prefix old s then new @ py_replace old new (drop (length old) s)
      else hd s # py_replace old new (tl s))"
  by pat_completeness auto
termination
  by (relation "measure (\<lambda>(old, new, s). length s)") auto

declare py_replace.simps [simp del]

fun py_join :: "'a list \<Rightarrow> 'a list list \<Rightarrow> 'a list" where
  "py_join sep [] = []"
| "py_join sep [x] = x"
| "py_join sep (x # y # ys) = x @ sep @ py_join sep (y # ys)"

subsection \<open>\<open>int(str)\<close>\<close>

text \<open>
  \<open>int(s)\<close> on a \<open>str\<close> is CPython's \<open>PyLong_FromUnicodeObject\<close> with base 10. It first
  maps the text to ASCII (\<open>_PyUnicode_TransformDecimalAndSpaceToASCII\<close>): a code point
  below 127 is kept, Unicode whitespace becomes a space, a Unicode decimal digit becomes
  the ASCII digit, and at anything else the buffer ends with a question mark. A text
  that is ASCII only is passed on unchanged. \<open>PyLong_FromString\<close> then skips ASCII whitespace, reads an
  optional sign and a run of digits in which single underscores may separate digits, and
  skips trailing whitespace; the whole buffer must be consumed. Every failure is a
  \<open>ValueError\<close>.

  The table of Unicode decimal digits belongs to the interpreter's Unicode database and the
  limit on the number of digits (\<open>sys.int_max_str_digits\<close>, 0 for no limit) to its
  configuration: both are parameters.
\<close>

definition Py_ISSPACE :: "nat \<Rightarrow> bool" where
  "Py_ISSPACE c \<longleftrightarrow> (9 \<le> c \<and> c \<le> 13) \<or> c = 32"

definition Py_UNICODE_ISSPACE :: "nat \<Rightarrow> bool" where
  "Py_UNICODE_ISSPACE c \<longleftrightarrow>
     (9 \<le> c \<and> c \<le> 13) \<or> (28 \<le> c \<and> c \<le> 32) \<or> c = 133 \<or> c = 160 \<or> c = 5760 \<or>
     (8192 \<le> c \<and> c \<le> 8202) \<or> c = 8232 \<or> c = 8233 \<or> c = 8239 \<or> c = 8287 \<or> c = 12288"

definition is_ascii_digit :: "nat \<Rightarrow> bool" where
  "is_ascii_digit c \<longleftrightarrow> 48 \<le> c \<and> c \<le> 57"

fun transform_slow :: "(nat \<Rightarrow> nat option) \<Rightarrow> ustr \<Rightarrow> ustr" where
  "transform_slow todecimal [] = []"
| "transform_slow todecimal (ch # rest) =
     (if ch < 127 then ch # transform_slow todecimal rest
      else if Py_UNICODE_ISSPACE ch then 32 # transform_slow todecimal rest
      else (case todecimal ch of
              None \<Rightarrow> [63]
            | Some decimal \<Rightarrow> (48 + decimal) # transform_slow todecimal rest))"

definition TransformDecimalAndSpaceToASCII :: "(nat \<Rightarrow> nat option) \<Rightarrow> ustr \<Rightarrow> ustr" where
  "TransformDecimalAndSpaceToASCII todecimal u =
     (if list_all (\<lambda>ch. ch < 128) u then u else transform_slow todecimal u)"

text \<open>
  The digit loop of \<open>long_from_string_base\<close>: \<open>prev\<close> is the previous character, \<open>ds\<close>
  the digit values read so far. The result is \<open>None\<close> at a double underscore, otherwise
  the last character read, the digit values and the unread rest.
\<close>

fun scan_digits :: "nat \<Rightarrow> nat list \<Rightarrow> ustr \<Rightarrow> (nat \<times> nat list \<times> ustr) option" where
  "scan_digits prev ds [] = Some (prev, ds, [])"
| "scan_digits prev ds (c # cs) =
     (if is_ascii_digit c then scan_digits c (ds @ [c - 48]) cs
      else if c = 95 then (if prev = 95 then None else scan_digits c ds cs)
      else Some (prev, ds, c # cs))"

definition digits_value :: "nat list \<Rightarrow> nat" where
  "digits_value ds = foldl (\<lambda>acc d. 10 * acc + d) 0 ds"

definition PyLong_FromString :: "nat \<Rightarrow> ustr \<Rightarrow> py_error + int" where
  "PyLong_FromString max_str_digits buffer =
     (let str = dropWhile Py_ISSPACE buffer;
          (sign, start) = (case str of
                             c # r \<Rightarrow> if c = 43 then (1, r) else if c = 45 then (- 1, r) else (1, str)
                           | [] \<Rightarrow> (1, str))
      in if (case start of c # _ \<Rightarrow> c = 95 | [] \<Rightarrow> False) then Inl ValueError
         else (case scan_digits 0 [] start of
                 None \<Rightarrow> Inl ValueError
               | Some (prev, ds, rest) \<Rightarrow>
                   if prev = 95 then Inl ValueError
                   else if ds = [] then Inl ValueError
                   else if dropWhile Py_ISSPACE rest \<noteq> [] then Inl ValueError
                   else if 640 < length ds \<and> 0 < max_str_digits \<and> max_str_digits < length ds
                     then Inl ValueError
                   else Inr (sign * int (digits_value ds))))"

definition py_int :: "(nat \<Rightarrow> nat option) \<Rightarrow> nat \<Rightarrow> ustr \<Rightarrow> py_error + int" where
  "py_int todecimal max_str_digits u =
     PyLong_FromString max_str_digits (TransformDecimalAndSpaceToASCII todecimal u)"

subsection \<open>\<open>bytes.decode\<close>\<close>

text \<open>
  \<open>content.decode('utf-8')\<close> is the strict UTF-8 decoder: shortest forms only, no
  surrogates, nothing above U+10FFFF; an ill-formed byte raises \<open>UnicodeDecodeError\<close>.
\<close>

definition is_continuation :: "nat \<Rightarrow> bool" where
  "is_continuation b \<longleftrightarrow> 128 \<le> b \<and> b \<le> 191"

fun utf_8_decode_nat :: "nat list \<Rightarrow> ustr option" where
  "utf_8_decode_nat [] = Some []"
| "utf_8_decode_nat (b # bs) =
     (if b < 128 then map_option ((#) b) (utf_8_decode_nat bs)
      else if 194 \<le> b \<and> b \<le> 223 then
        (case bs of
           b1 # r \<Rightarrow>
             if is_continuation b1
             then map_option ((#) ((b - 192) * 64 + (b1 - 128))) (utf_8_decode_nat r)
             else None
         | _ \<Rightarrow> None)
      else if 224 \<le> b \<and> b \<le> 239 then
        (case bs of
           b1 # b2 # r \<Rightarrow>
             if (if b = 224 then 160 else 128) \<le> b1 \<and> b1 \<le> (if b = 237 then 159 else 191)
                \<and> is_continuation b2
             then map_option ((#) ((b - 224) * 4096 + (b1 - 128) * 64 + (b2 - 128)))
                    (utf_8_decode_nat r)
             else None
         | _ \<Rightarrow> None)
      else if 240 \<le> b \<and> b \<le> 244 then
        (case bs of
           b1 # b2 # b3 # r \<Rightarrow>
             if (if b = 240 then 144 else 128) \<le> b1 \<and> b1 \<le> (if b = 244 then 143 else 191)
                \<and> is_continuation b2 \<and> is_continuation b3
             then map_option
                    ((#) ((b - 240) * 262144 + (b1 - 128) * 4096 + (b2 - 128) * 64 + (b3 - 128)))
                    (utf_8_decode_nat r)
             else None
         | _ \<Rightarrow> None)
      else None)"

definition utf_8_decode :: "bytes \<Rightarrow> py_error + ustr" where
  "utf_8_decode content =
     (case utf_8_decode_nat (map of_char content) of
        None \<Rightarrow> Inl UnicodeDecodeError
      | Some u \<Rightarrow> Inr u)"

section \<open>The document tree of BeautifulSoup\<close>

text \<open>
  A parsed document is a tree of tags and strings. Of a tag only its \<open>class\<close> attribute
  matters to the selectors of the source, which are all of the form \<open>.name\<close>.
  \<open>tag.select(sel)\<close> lists the matching descendants in document order,
  \<open>tag.select_one(sel)\<close> is the first of them or \<open>None\<close>, and \<open>tag.text\<close> joins the strings
  below the tag.
  Comments and the other nodes that \<open>tag.text\<close> skips are left out of the tree. A tag is
  truthy whatever it contains.
\<close>

datatype PageElement = NavigableString ustr | Tag "string list" "PageElement list"

fun descendants :: "PageElement \<Rightarrow> PageElement list" where
  "descendants (NavigableString s) = []"
| "descendants (Tag cls contents) = concat (map (\<lambda>k. k # descendants k) contents)"

fun get_text :: "PageElement \<Rightarrow> ustr" where
  "get_text (NavigableString s) = s"
| "get_text (Tag cls contents) = concat (map get_text contents)"

fun has_class :: "string \<Rightarrow> PageElement \<Rightarrow> bool" where
  "has_class c (NavigableString s) = False"
| "has_class c (Tag cls contents) = (c \<in> set cls)"

definition select :: "string \<Rightarrow> PageElement \<Rightarrow> PageElement list" where
  "select selector el =
     (case selector of
        d # c \<Rightarrow> if d = CHR ''.'' then filter (has_class c) (descendants el) else []
      | [] \<Rightarrow> [])"

definition select_one :: "string \<Rightarrow> PageElement \<Rightarrow> PageElement option" where
  "select_one selector el = (case select selector el of [] \<Rightarrow> None | x # _ \<Rightarrow> Some x)"

section \<open>The world outside the process\<close>

text \<open>
  What the handlers obtain from their libraries and from the network is a parameter of the
  model: the upstream site as a function from the URL to the response, the detector of
  \<open>chardet\<close>, the codecs other than UTF-8 (with \<open>LookupError\<close> for a label that names no
  codec), the HTML parser, and the two parameters of \<open>int\<close>.
\<close>

record Response =
  status_code :: int
  content :: bytes

record world =
  requests_get :: "ustr \<Rightarrow> Response"
  chardet_detect :: "bytes \<Rightarrow> string option"
  codec_decode :: "string \<Rightarrow> bytes \<Rightarrow> py_error + ustr"
  html_parser :: "ustr \<Rightarrow> PageElement"
  unicode_todecimal :: "nat \<Rightarrow> nat option"
  int_max_str_digits :: nat

definition bytes_decode :: "world \<Rightarrow> string option \<Rightarrow> bytes \<Rightarrow> py_error + ustr" where
  "bytes_decode env encoding b =
     (case encoding of
        None \<Rightarrow> Inl TypeError
      | Some label \<Rightarrow> if label = ''utf-8'' then utf_8_decode b else codec_decode env label b)"

section \<open>Storage\<close>

text \<open>
  The two tables with their rows in insertion order and the sequences that number them.
  \<open>db.add\<close>, \<open>db.commit\<close> and \<open>db.refresh\<close> together append the row with the next
  identity, unless the commit refuses the row. The engine is PostgreSQL: its driver cannot
  encode a text that holds a surrogate (\<open>UnicodeEncodeError\<close>) and rejects a text that
  holds U+0000 (\<open>ValueError\<close>), and the server rejects a salary outside the 32 bits of
  \<open>Column(Integer)\<close> (\<open>DataError\<close>). The driver prepares the texts, in the order of the
  columns, before the server sees the statement, and the server rejects the salary while it
  plans the statement, before it draws an identity: a refused row is not stored and the
  table and its sequence stay as they were. The handlers catch nothing, so the exception
  ends the request; the rows committed before stay. Other failures of the engine, such as
  a lost connection, are outside the model.
\<close>

record Vacancy =
  vacancy_id :: int
  title :: ustr
  description :: ustr
  skills :: ustr
  employment_format :: "ustr option"
  salary :: "int option"

record Applicant =
  applicant_id :: int
  name :: ustr
  applicant_skills :: ustr

record Session =
  vacancies :: "Vacancy list"
  applicants :: "Applicant list"
  vacancies_id_seq :: int
  applicants_id_seq :: int

definition is_surrogate :: "nat \<Rightarrow> bool" where
  "is_surrogate c \<longleftrightarrow> 55296 \<le> int c \<and> int c \<le> 57343"

definition text_refused :: "ustr \<Rightarrow> py_error option" where
  "text_refused u =
     (if list_ex is_surrogate u then Some UnicodeEncodeError
      else if 0 \<in> set u then Some ValueError
      else None)"

definition integer_refused :: "int \<Rightarrow> py_error option" where
  "integer_refused n =
     (if - 2147483648 \<le> n \<and> n \<le> 2147483647 then None else Some DataError)"

fun first_refusal :: "py_error option list \<Rightarrow> py_error option" where
  "first_refusal [] = None"
| "first_refusal (None # rs) = first_refusal rs"
| "first_refusal (Some e # rs) = Some e"

definition vacancy_refused :: "Vacancy \<Rightarrow> py_error option" where
  "vacancy_refused v =
     first_refusal
       [text_refused (title v), text_refused (description v), text_refused (skills v),
        (case employment_format v of None \<Rightarrow> None | Some t \<Rightarrow> text_refused t),
        (case salary v of None \<Rightarrow> None | Some n \<Rightarrow> integer_refused n)]"

definition applicant_refused :: "Applicant \<Rightarrow> py_error option" where
  "applicant_refused a =
     first_refusal [text_refused (name a), text_refused (applicant_skills a)]"

definition add_vacancy :: "Session \<Rightarrow> Vacancy \<Rightarrow> py_error + Vacancy \<times> Session" where
  "add_vacancy db vac =
     (case vacancy_refused vac of
        Some e \<Rightarrow> Inl e
      | None \<Rightarrow>
          (let vac' = vac\<lparr>vacancy_id := vacancies_id_seq db + 1\<rparr>
           in Inr (vac', db\<lparr>vacancies := vacancies db @ [vac'],
                           vacancies_id_seq := vacancies_id_seq db + 1\<rparr>)))"

definition add_applicant :: "Session \<Rightarrow> Applicant \<Rightarrow> py_error + Applicant \<times> Session" where
  "add_applicant db appl =
     (case applicant_refused appl of
        Some e \<Rightarrow> Inl e
      | None \<Rightarrow>
          (let appl' = appl\<lparr>applicant_id := applicants_id_seq db + 1\<rparr>
           in Inr (appl', db\<lparr>applicants := applicants db @ [appl'],
                            applicants_id_seq := applicants_id_seq db + 1\<rparr>)))"

section \<open>The handlers\<close>

text \<open>
  Logging, and the copy of the page that \<open>get_vacancies\<close> writes to a file, touch neither
  the storage nor the result and are left out.

  Lines 107 to 117 and 172 to 182: both handlers decode the body twice, first as UTF-8
  and then under the label of the detector. \<open>decode(None)\<close> raises \<open>TypeError\<close>.
\<close>

definition detect_and_decode :: "world \<Rightarrow> bytes \<Rightarrow> py_error + ustr" where
  "detect_and_decode env body =
     (case bytes_decode env (Some ''utf-8'') body of
        Inl e \<Rightarrow> Inl e
      | Inr _ \<Rightarrow> bytes_decode env (chardet_detect env body) body)"

text \<open>Lines 133 to 139: the salary of a block.\<close>

definition rub :: ustr where
  "rub = [1088, 1091, 1073, 46]"

definition salary_text :: "ustr \<Rightarrow> ustr" where
  "salary_text t = py_replace [32] [] (py_replace rub [] t)"

definition parse_salary :: "world \<Rightarrow> PageElement option \<Rightarrow> py_error + int option" where
  "parse_salary env salary_element =
     (case salary_element of
        None \<Rightarrow> Inr None
      | Some el \<Rightarrow>
          (case py_int (unicode_todecimal env) (int_max_str_digits env)
                  (salary_text (get_text el)) of
             Inr n \<Rightarrow> Inr (Some n)
           | Inl ValueError \<Rightarrow> Inr None
           | Inl e \<Rightarrow> Inl e))"

text \<open>
  Lines 126 to 156: the loop over the item blocks. A block is stored when \<open>title\<close> and
  \<open>description\<close> are both truthy, that is neither \<open>None\<close> nor the empty string. An
  exception of the commit leaves the loop and the handler.
\<close>

fun vacancies_loop ::
  "world \<Rightarrow> PageElement list \<Rightarrow> Session \<Rightarrow> Vacancy list \<Rightarrow> (py_error + Vacancy list) \<times> Session"
where
  "vacancies_loop env [] db acc = (Inr acc, db)"
| "vacancies_loop env (vacancy # rest) db acc =
     (let title' = map_option get_text (select_one ''.vacancy-serp-item__title'' vacancy);
          description' = map_option get_text (select_one ''.vacancy-serp-item__snippet'' vacancy);
          skills' = map get_text (select ''.bloko-tag__section_text'' vacancy);
          employment_format' =
            map_option get_text (select_one ''.vacancy-serp-item__meta-info'' vacancy);
          salary_element = select_one ''.vacancy-serp-item__sidebar'' vacancy
      in case parse_salary env salary_element of
           Inl e \<Rightarrow> (Inl e, db)
         | Inr salary' \<Rightarrow>
             (case (title', description') of
                (Some t, Some d) \<Rightarrow>
                  if t \<noteq> [] \<and> d \<noteq> [] then
                    (case add_vacancy db
                            \<lparr>vacancy_id = 0, title = t, description = d,
                             skills = py_join (ascii '', '') skills',
                             employment_format = employment_format', salary = salary'\<rparr> of
                       Inl e \<Rightarrow> (Inl e, db)
                     | Inr (vac, db') \<Rightarrow> vacancies_loop env rest db' (acc @ [vac]))
                  else vacancies_loop env rest db acc
              | _ \<Rightarrow> vacancies_loop env rest db acc))"

definition get_vacancies ::
  "world \<Rightarrow> ustr \<Rightarrow> Session \<Rightarrow> (py_error + Vacancy list) \<times> Session" where
  "get_vacancies env query db =
     (let url = ascii ''https://hh.ru/search/vacancy?text='' @ query;
          response = requests_get env url
      in if status_code response \<noteq> 200
         then (Inl (HTTPException (status_code response) ''Error fetching data from hh.ru''), db)
         else (case detect_and_decode env (content response) of
                 Inl e \<Rightarrow> (Inl e, db)
               | Inr decoded_content \<Rightarrow>
                   vacancies_loop env
                     (select ''.vacancy-serp-item'' (html_parser env decoded_content)) db []))"

text \<open>Lines 186 to 203 and the handler of \<open>/applicants\<close>.\<close>

fun applicants_loop ::
  "PageElement list \<Rightarrow> Session \<Rightarrow> Applicant list \<Rightarrow> (py_error + Applicant list) \<times> Session"
where
  "applicants_loop [] db acc = (Inr acc, db)"
| "applicants_loop (applicant # rest) db acc =
     (let name' = map_option get_text (select_one ''.resume-search-item__fullname'' applicant);
          skills' = map get_text (select ''.bloko-tag__section_text'' applicant)
      in case name' of
           Some n \<Rightarrow>
             if n \<noteq> [] then
               (case add_applicant db
                       \<lparr>applicant_id = 0, name = n,
                        applicant_skills = py_join (ascii '', '') skills'\<rparr> of
                  Inl e \<Rightarrow> (Inl e, db)
                | Inr (appl, db') \<Rightarrow> applicants_loop rest db' (acc @ [appl]))
             else applicants_loop rest db acc
         | None \<Rightarrow> applicants_loop rest db acc)"

definition get_applicants ::
  "world \<Rightarrow> ustr \<Rightarrow> Session \<Rightarrow> (py_error + Applicant list) \<times> Session" where
  "get_applicants env query db =
     (let url = ascii ''https://hh.ru/search/resume?text='' @ query;
          response = requests_get env url
      in if status_code response \<noteq> 200
         then (Inl (HTTPException (status_code response) ''Error fetching data from hh.ru''), db)
         else (case detect_and_decode env (content response) of
                 Inl e \<Rightarrow> (Inl e, db)
               | Inr decoded_content \<Rightarrow>
                   applicants_loop
                     (select ''.resume-serp-item'' (html_parser env decoded_content)) db []))"

section \<open>The routes and their response models\<close>

text \<open>
  \<open>response_model=List[VacancyResponse]\<close>: the framework builds, from each object the
  handler returns, a \<open>VacancyResponse\<close> with the fields \<open>title\<close>, \<open>description\<close>, \<open>skills\<close>
  and \<open>employment_format\<close> of \<open>VacancyBase\<close>, all of type \<open>str\<close>, and \<open>id\<close>. A value
  \<open>None\<close> for a \<open>str\<close> field fails the validation of the response.
\<close>

datatype json = JNull | JInt int | JStr ustr

definition VacancyResponse :: "Vacancy \<Rightarrow> py_error + (string \<times> json) list" where
  "VacancyResponse v =
     (case employment_format v of
        None \<Rightarrow> Inl ResponseValidationError
      | Some e \<Rightarrow>
          Inr [(''title'', JStr (title v)), (''description'', JStr (description v)),
               (''skills'', JStr (skills v)), (''employment_format'', JStr e),
               (''id'', JInt (vacancy_id v))])"

definition ApplicantResponse :: "Applicant \<Rightarrow> py_error + (string \<times> json) list" where
  "ApplicantResponse a =
     Inr [(''name'', JStr (name a)), (''skills'', JStr (applicant_skills a)),
          (''id'', JInt (applicant_id a))]"

fun response_list :: "('a \<Rightarrow> py_error + 'b) \<Rightarrow> 'a list \<Rightarrow> py_error + 'b list" where
  "response_list model [] = Inr []"
| "response_list model (x # xs) =
     (case model x of
        Inl e \<Rightarrow> Inl e
      | Inr y \<Rightarrow> (case response_list model xs of Inl e \<Rightarrow> Inl e | Inr ys \<Rightarrow> Inr (y # ys)))"

definition vacancies_route ::
  "world \<Rightarrow> ustr \<Rightarrow> Session \<Rightarrow> (py_error + (string \<times> json) list list) \<times> Session" where
  "vacancies_route env query db =
     (case get_vacancies env query db of
        (Inl e, db') \<Rightarrow> (Inl e, db')
      | (Inr vs, db') \<Rightarrow> (response_list VacancyResponse vs, db'))"

definition applicants_route ::
  "world \<Rightarrow> ustr \<Rightarrow> Session \<Rightarrow> (py_error + (string \<times> json) list list) \<times> Session" where
  "applicants_route env query db =
     (case get_applicants env query db of
        (Inl e, db') \<Rightarrow> (Inl e, db')
      | (Inr as, db') \<Rightarrow> (response_list ApplicantResponse as, db'))"

text \<open>
  The status of the HTTP response: 200 for a result, the status an \<open>HTTPException\<close>
  carries, 500 for any other exception.
\<close>

fun http_status :: "py_error + 'a \<Rightarrow> int" where
  "http_status (Inr r) = 200"
| "http_status (Inl (HTTPException s detail)) = s"
| "http_status (Inl e) = 500"

section \<open>The pipeline as the specification describes it\<close>

text \<open>
  The specification splits the loop body into a normalizer, which maps a block to a record
  or to nothing, and the insertion, which numbers the records in the order of their blocks.
  These definitions follow that description; the theorems below compare them with the loops
  of the source.
\<close>

definition salary_of :: "world \<Rightarrow> PageElement \<Rightarrow> int option" where
  "salary_of env block =
     (case select_one ''.vacancy-serp-item__sidebar'' block of
        None \<Rightarrow> None
      | Some el \<Rightarrow>
          (case py_int (unicode_todecimal env) (int_max_str_digits env)
                  (salary_text (get_text el)) of
             Inr n \<Rightarrow> Some n
           | Inl e \<Rightarrow> None))"

definition normalize_vacancy :: "world \<Rightarrow> PageElement \<Rightarrow> Vacancy option" where
  "normalize_vacancy env block =
     (case (select_one ''.vacancy-serp-item__title'' block,
            select_one ''.vacancy-serp-item__snippet'' block) of
        (Some t, Some d) \<Rightarrow>
          if get_text t \<noteq> [] \<and> get_text d \<noteq> [] then
            Some \<lparr>vacancy_id = 0, title = get_text t, description = get_text d,
                  skills = py_join (ascii '', '')
                             (map get_text (select ''.bloko-tag__section_text'' block)),
                  employment_format =
                    map_option get_text (select_one ''.vacancy-serp-item__meta-info'' block),
                  salary = salary_of env block\<rparr>
          else None
      | _ \<Rightarrow> None)"

definition normalize_applicant :: "PageElement \<Rightarrow> Applicant option" where
  "normalize_applicant block =
     (case select_one ''.resume-search-item__fullname'' block of
        Some n \<Rightarrow>
          if get_text n \<noteq> [] then
            Some \<lparr>applicant_id = 0, name = get_text n,
                  applicant_skills = py_join (ascii '', '')
                             (map get_text (select ''.bloko-tag__section_text'' block))\<rparr>
          else None
      | None \<Rightarrow> None)"

fun number_vacancies :: "int \<Rightarrow> Vacancy list \<Rightarrow> Vacancy list" where
  "number_vacancies n [] = []"
| "number_vacancies n (v # vs) = v\<lparr>vacancy_id := n + 1\<rparr> # number_vacancies (n + 1) vs"

fun number_applicants :: "int \<Rightarrow> Applicant list \<Rightarrow> Applicant list" where
  "number_applicants n [] = []"
| "number_applicants n (a # as) = a\<lparr>applicant_id := n + 1\<rparr> # number_applicants (n + 1) as"

text \<open>
  The pattern \<open>^[\d\s]+rub\.$\<close> of the specification, on a text that ends with the
  currency token: \<open>\d\<close> is a decimal digit of Unicode, \<open>\s\<close> its whitespace. The number
  such a text writes is the value of its digits.
\<close>

definition re_digit :: "(nat \<Rightarrow> nat option) \<Rightarrow> nat \<Rightarrow> bool" where
  "re_digit todecimal c \<longleftrightarrow>
     is_ascii_digit c \<or>
     (128 \<le> c \<and> \<not> Py_UNICODE_ISSPACE c \<and>
      (case todecimal c of Some d \<Rightarrow> d < 10 | None \<Rightarrow> False))"

definition digit_of :: "(nat \<Rightarrow> nat option) \<Rightarrow> nat \<Rightarrow> nat" where
  "digit_of todecimal c =
     (if c < 128 then c - 48 else (case todecimal c of Some d \<Rightarrow> d | None \<Rightarrow> 0))"

definition matches_salary_pattern :: "(nat \<Rightarrow> nat option) \<Rightarrow> ustr \<Rightarrow> bool" where
  "matches_salary_pattern todecimal t \<longleftrightarrow>
     suffix rub t \<and> length rub < length t \<and>
     list_all (\<lambda>c. re_digit todecimal c \<or> Py_UNICODE_ISSPACE c) (take (length t - length rub) t)"

definition stripped_value :: "(nat \<Rightarrow> nat option) \<Rightarrow> ustr \<Rightarrow> nat" where
  "stripped_value todecimal body =
     digits_value (map (digit_of todecimal) (filter (re_digit todecimal) body))"

section \<open>A sample world\<close>

text \<open>
  A site that answers every request with the given status and body, a detector that finds
  no encoding in an empty body and ASCII in any other, the ASCII codec, a parser that
  yields the given tree, the Arabic-Indic digits as the decimal digits beyond ASCII, and
  the default limit of 4300 digits.
\<close>

definition site :: "int \<Rightarrow> bytes \<Rightarrow> PageElement \<Rightarrow> world" where
  "site status body document =
     \<lparr>requests_get = (\<lambda>url. \<lparr>status_code = status, content = body\<rparr>),
      chardet_detect = (\<lambda>b. if b = [] then None else Some ''ascii''),
      codec_decode = (\<lambda>label b.
        if label = ''ascii''
        then (if list_all (\<lambda>c. of_char c < (128 :: nat)) b then Inr (map of_char b)
              else Inl UnicodeDecodeError)
        else Inl LookupError),
      html_parser = (\<lambda>u. document),
      unicode_todecimal = (\<lambda>c. if 1632 \<le> c \<and> c \<le> 1641 then Some (c - 1632) else None),
      int_max_str_digits = 4300\<rparr>"

definition element :: "string \<Rightarrow> ustr \<Rightarrow> PageElement" where
  "element cls u = Tag [cls] [NavigableString u]"

definition item :: "PageElement list \<Rightarrow> PageElement" where
  "item children = Tag [''vacancy-serp-item''] children"

definition page :: "PageElement list \<Rightarrow> PageElement" where
  "page items = Tag [] [Tag [] items]"

definition empty_db :: Session where
  "empty_db = \<lparr>vacancies = [], applicants = [], vacancies_id_seq = 0, applicants_id_seq = 0\<rparr>"

definition engineer :: "PageElement list" where
  "engineer = [element ''vacancy-serp-item__title'' (ascii ''Engineer''),
               element ''vacancy-serp-item__snippet'' (ascii ''Build stuff'')]"

definition tester :: "PageElement list" where
  "tester = [element ''vacancy-serp-item__title'' (ascii ''Tester''),
             element ''vacancy-serp-item__snippet'' (ascii ''Test stuff''),
             element ''bloko-tag__section_text'' (ascii ''Python''),
             element ''bloko-tag__section_text'' (ascii ''SQL'')]"

definition listing :: PageElement where
  "listing = page [item engineer,
                   item [element ''vacancy-serp-item__snippet'' (ascii ''No title'')],
                   item tester,
                   Tag [''resume-serp-item''] [element ''resume-search-item__fullname'' (ascii ''Ann'')]]"

definition analyst_db :: Session where
  "analyst_db =
     \<lparr>vacancies = [\<lparr>vacancy_id = 1, title = ascii ''Analyst'', description = ascii ''Reports'',
                     skills = [], employment_format = None, salary = None\<rparr>],
      applicants = [], vacancies_id_seq = 1, applicants_id_seq = 0\<rparr>"

definition minus_five :: "PageElement list" where
  "minus_five = engineer @ [element ''vacancy-serp-item__sidebar'' (ascii ''-5 '' @ rub)]"

definition paid :: "PageElement list" where
  "paid = engineer @ [element ''vacancy-serp-item__meta-info'' (ascii ''Remote''),
                      element ''vacancy-serp-item__sidebar'' (ascii ''1000 '' @ rub)]"

definition rich :: "PageElement list" where
  "rich = engineer @ [element ''vacancy-serp-item__sidebar'' (ascii ''3000000000 '' @ rub)]"

definition nul_title :: "PageElement list" where
  "nul_title = [element ''vacancy-serp-item__title'' [65, 0, 66],
                element ''vacancy-serp-item__snippet'' (ascii ''Build stuff'')]"

section \<open>Lemmas on \<open>str.replace\<close>\<close>

lemma py_replace_char: "py_replace [x] [] s = filter (\<lambda>c. c \<noteq> x) s"
proof (induction s)
  case Nil
  show ?case by (subst py_replace.simps) simp
next
  case (Cons c cs)
  show ?case by (subst py_replace.simps) (simp add: Cons.IH)
qed

lemma py_replace_Nil: "old \<noteq> [] \<Longrightarrow> py_replace old new [] = []"
  by (subst py_replace.simps) simp

lemma py_replace_prefix:
  "old \<noteq> [] \<Longrightarrow> py_replace old new (old @ s) = new @ py_replace old new s"
  by (subst py_replace.simps) simp

lemma py_replace_Cons:
  "old \<noteq> [] \<Longrightarrow> \<not> prefix old (c # cs) \<Longrightarrow>
   py_replace old new (c # cs) = c # py_replace old new cs"
  by (subst py_replace.simps) simp

lemma set_py_replace: "old \<noteq> [] \<Longrightarrow> set (py_replace old [] s) \<subseteq> set s"
proof (induction s rule: length_induct)
  case (1 s)
  show ?case
  proof (cases s)
    case Nil
    then show ?thesis using 1 by (simp add: py_replace_Nil)
  next
    case (Cons c cs)
    show ?thesis
    proof (cases "prefix old s")
      case True
      then obtain r where r: "s = old @ r" by (auto simp: prefix_def)
      with 1 have "set (py_replace old [] r) \<subseteq> set r" by simp
      then show ?thesis using r 1(2) by (auto simp: py_replace_prefix)
    next
      case False
      with 1 Cons show ?thesis by (auto simp: py_replace_Cons)
    qed
  qed
qed

lemma filter_py_replace:
  "old \<noteq> [] \<Longrightarrow> \<forall>c\<in>set old. \<not> P c \<Longrightarrow> filter P (py_replace old [] s) = filter P s"
proof (induction s rule: length_induct)
  case (1 s)
  show ?case
  proof (cases s)
    case Nil
    then show ?thesis using 1 by (simp add: py_replace_Nil)
  next
    case (Cons c cs)
    show ?thesis
    proof (cases "prefix old s")
      case True
      then obtain r where r: "s = old @ r" by (auto simp: prefix_def)
      with 1 have "filter P (py_replace old [] r) = filter P r" by simp
      moreover have "filter P old = []" using 1(3) by (simp add: filter_empty_conv)
      ultimately show ?thesis using r 1(2) by (simp add: py_replace_prefix)
    next
      case False
      with 1 Cons show ?thesis by (auto simp: py_replace_Cons)
    qed
  qed
qed

lemma py_replace_absent:
  "old \<noteq> [] \<Longrightarrow> \<forall>a b. s \<noteq> a @ old @ b \<Longrightarrow> py_replace old new s = s"
proof (induction s)
  case Nil
  then show ?case by (simp add: py_replace_Nil)
next
  case (Cons c cs)
  have np: "\<not> prefix old (c # cs)"
  proof
    assume "prefix old (c # cs)"
    then obtain r where "c # cs = [] @ old @ r" by (auto simp: prefix_def)
    with Cons.prems(2) show False by blast
  qed
  have "\<forall>a b. cs \<noteq> a @ old @ b"
  proof (intro allI notI)
    fix a b assume "cs = a @ old @ b"
    then have "c # cs = (c # a) @ old @ b" by simp
    with Cons.prems(2) show False by blast
  qed
  with Cons have "py_replace old new cs = cs" by simp
  with np Cons.prems(1) show ?case by (simp add: py_replace_Cons)
qed

lemma rub_straddle:
  "a \<noteq> [] \<Longrightarrow> prefix rub (a @ rub @ b) \<Longrightarrow> prefix rub a"
proof -
  assume ne: "a \<noteq> []" and p: "prefix rub (a @ rub @ b)"
  show ?thesis
  proof (cases a)
    case Nil with ne show ?thesis by simp
  next
    case c1: (Cons x1 a1)
    show ?thesis
    proof (cases a1)
      case Nil with c1 p show ?thesis by (simp add: rub_def)
    next
      case c2: (Cons x2 a2)
      show ?thesis
      proof (cases a2)
        case Nil with c1 c2 p show ?thesis by (simp add: rub_def)
      next
        case c3: (Cons x3 a3)
        show ?thesis
        proof (cases a3)
          case Nil with c1 c2 c3 p show ?thesis by (simp add: rub_def)
        next
          case (Cons x4 a4)
          with c1 c2 c3 p show ?thesis by (simp add: rub_def)
        qed
      qed
    qed
  qed
qed

lemma py_replace_rub_append:
  "py_replace rub [] (a @ rub @ b) = py_replace rub [] a @ py_replace rub [] b"
proof (induction a rule: length_induct)
  case (1 a)
  have rne: "rub \<noteq> []" by (simp add: rub_def)
  show ?case
  proof (cases a)
    case Nil
    then show ?thesis using rne by (simp add: py_replace_prefix py_replace_Nil)
  next
    case (Cons c cs)
    show ?thesis
    proof (cases "prefix rub a")
      case True
      then obtain r where r: "a = rub @ r" by (auto simp: prefix_def)
      then have "length r < length a" using rne by simp
      with 1 have "py_replace rub [] (r @ rub @ b) = py_replace rub [] r @ py_replace rub [] b"
        by blast
      then show ?thesis using r rne by (simp add: py_replace_prefix)
    next
      case False
      then have "\<not> prefix rub (a @ rub @ b)" using rub_straddle Cons by blast
      moreover have "py_replace rub [] (cs @ rub @ b) = py_replace rub [] cs @ py_replace rub [] b"
        using 1 Cons by simp
      ultimately show ?thesis using False Cons rne by (simp add: py_replace_Cons)
    qed
  qed
qed

section \<open>Lemmas on \<open>int\<close> and the salary\<close>

lemma PyLong_FromString_error: "PyLong_FromString m buf = Inl e \<Longrightarrow> e = ValueError"
  by (auto simp: PyLong_FromString_def Let_def split: list.splits if_splits option.splits prod.splits)

lemma py_int_error: "py_int td m u = Inl e \<Longrightarrow> e = ValueError"
  by (simp add: py_int_def PyLong_FromString_error)

lemma parse_salary_total:
  "parse_salary env el =
     Inr (case el of None \<Rightarrow> None
          | Some x \<Rightarrow> (case py_int (unicode_todecimal env) (int_max_str_digits env)
                               (salary_text (get_text x)) of
                         Inr n \<Rightarrow> Some n | Inl e \<Rightarrow> None))"
proof (cases el)
  case None
  then show ?thesis by (simp add: parse_salary_def)
next
  case (Some x)
  show ?thesis
  proof (cases "py_int (unicode_todecimal env) (int_max_str_digits env) (salary_text (get_text x))")
    case (Inl e)
    then have "e = ValueError" by (rule py_int_error)
    with Inl Some show ?thesis by (simp add: parse_salary_def)
  next
    case (Inr n)
    with Some show ?thesis by (simp add: parse_salary_def)
  qed
qed

lemma scan_digits_all:
  "list_all is_ascii_digit cs \<Longrightarrow>
   scan_digits p acc cs = Some (if cs = [] then p else last cs, acc @ map (\<lambda>c. c - 48) cs, [])"
  by (induction cs arbitrary: p acc) auto

lemma PyLong_FromString_digits:
  assumes "list_all is_ascii_digit ds" "ds \<noteq> []"
    and "length ds \<le> 640 \<or> m = 0 \<or> length ds \<le> m"
  shows "PyLong_FromString m ds = Inr (int (digits_value (map (\<lambda>c. c - 48) ds)))"
proof -
  obtain c cs where ds: "ds = c # cs" using assms(2) by (cases ds) auto
  have c: "is_ascii_digit c" using assms(1) ds by simp
  then have nsp: "\<not> Py_ISSPACE c" and ns: "c \<noteq> 43" "c \<noteq> 45" "c \<noteq> 95"
    by (auto simp: is_ascii_digit_def Py_ISSPACE_def)
  have l: "is_ascii_digit (last ds)" using assms(1,2) by (simp add: list_all_iff)
  then have l95: "last ds \<noteq> 95" by (auto simp: is_ascii_digit_def)
  have sc: "scan_digits 0 [] ds = Some (last ds, map (\<lambda>c. c - 48) ds, [])"
    using scan_digits_all[OF assms(1), of 0 "[]"] assms(2) by simp
  have dw: "dropWhile Py_ISSPACE ds = ds" using ds nsp by simp
  show ?thesis
    unfolding PyLong_FromString_def dw
    using ns sc l95 assms(2,3) ds by (auto simp: Let_def)
qed

lemma PyLong_FromString_nonneg:
  assumes "45 \<notin> set buf" "PyLong_FromString m buf = Inr n"
  shows "0 \<le> n"
proof -
  have "\<And>r. dropWhile Py_ISSPACE buf \<noteq> 45 # r"
  proof
    fix r assume "dropWhile Py_ISSPACE buf = 45 # r"
    then have "45 \<in> set (dropWhile Py_ISSPACE buf)" by simp
    then have "45 \<in> set buf" by (rule set_dropWhileD)
    with assms(1) show False by simp
  qed
  then show ?thesis using assms(2)
    by (auto simp: PyLong_FromString_def Let_def split: list.splits if_splits option.splits prod.splits)
qed

lemma transform_slow_no_minus: "45 \<notin> set u \<Longrightarrow> 45 \<notin> set (transform_slow td u)"
  by (induction u) (auto split: option.splits)

lemma py_int_nonneg:
  assumes "45 \<notin> set u" "py_int td m u = Inr n"
  shows "0 \<le> n"
  using assms PyLong_FromString_nonneg[of "TransformDecimalAndSpaceToASCII td u" m n]
  by (auto simp: py_int_def TransformDecimalAndSpaceToASCII_def transform_slow_no_minus split: if_splits)

section \<open>The loops insert the normalized blocks in order, as far as the storage accepts them\<close>

lemma vacancies_loop_ok:
  "\<forall>v\<in>set (List.map_filter (normalize_vacancy env) bs). vacancy_refused v = None \<Longrightarrow>
   vacancies_loop env bs db acc =
     (let new = number_vacancies (vacancies_id_seq db) (List.map_filter (normalize_vacancy env) bs)
      in (Inr (acc @ new),
          db\<lparr>vacancies := vacancies db @ new,
             vacancies_id_seq := vacancies_id_seq db + int (length new)\<rparr>))"
proof (induction bs arbitrary: db acc)
  case Nil
  show ?case by simp
next
  case (Cons b bs)
  show ?case
  proof (cases "normalize_vacancy env b")
    case None
    with Cons.prems have p: "\<forall>v\<in>set (List.map_filter (normalize_vacancy env) bs). vacancy_refused v = None"
      by simp
    from None have "vacancies_loop env (b # bs) db acc = vacancies_loop env bs db acc"
      by (auto simp: parse_salary_total normalize_vacancy_def split: option.splits if_splits)
    with Cons.IH[OF p, of db acc] None show ?thesis by simp
  next
    case (Some v)
    with Cons.prems have a: "vacancy_refused v = None"
      and p: "\<forall>v\<in>set (List.map_filter (normalize_vacancy env) bs). vacancy_refused v = None"
      by simp_all
    let ?v' = "v\<lparr>vacancy_id := vacancies_id_seq db + 1\<rparr>"
    let ?db' = "db\<lparr>vacancies := vacancies db @ [?v'], vacancies_id_seq := vacancies_id_seq db + 1\<rparr>"
    from Some a have "vacancies_loop env (b # bs) db acc = vacancies_loop env bs ?db' (acc @ [?v'])"
      by (auto simp: parse_salary_total normalize_vacancy_def salary_of_def add_vacancy_def Let_def
          split: option.splits if_splits)
    with Cons.IH[OF p, of ?db' "acc @ [?v']"] Some show ?thesis by (simp add: Let_def)
  qed
qed

lemma vacancies_loop_Inr:
  "vacancies_loop env bs db acc = (Inr rs, db') \<Longrightarrow>
   \<forall>v\<in>set (List.map_filter (normalize_vacancy env) bs). vacancy_refused v = None"
proof (induction bs arbitrary: db acc)
  case Nil
  show ?case by simp
next
  case (Cons b bs)
  show ?case
  proof (cases "normalize_vacancy env b")
    case None
    then have "vacancies_loop env (b # bs) db acc = vacancies_loop env bs db acc"
      by (auto simp: parse_salary_total normalize_vacancy_def split: option.splits if_splits)
    with Cons.prems Cons.IH[of db acc] None show ?thesis by simp
  next
    case (Some v)
    show ?thesis
    proof (cases "vacancy_refused v")
      case (Some e)
      with \<open>normalize_vacancy env b = Some v\<close>
      have "vacancies_loop env (b # bs) db acc = (Inl e, db)"
        by (auto simp: parse_salary_total normalize_vacancy_def salary_of_def add_vacancy_def Let_def
            split: option.splits if_splits)
      with Cons.prems show ?thesis by simp
    next
      case None
      let ?v' = "v\<lparr>vacancy_id := vacancies_id_seq db + 1\<rparr>"
      let ?db' = "db\<lparr>vacancies := vacancies db @ [?v'], vacancies_id_seq := vacancies_id_seq db + 1\<rparr>"
      from None \<open>normalize_vacancy env b = Some v\<close>
      have "vacancies_loop env (b # bs) db acc = vacancies_loop env bs ?db' (acc @ [?v'])"
        by (auto simp: parse_salary_total normalize_vacancy_def salary_of_def add_vacancy_def Let_def
            split: option.splits if_splits)
      with Cons.prems Cons.IH[of ?db' "acc @ [?v']"] None \<open>normalize_vacancy env b = Some v\<close>
      show ?thesis by simp
    qed
  qed
qed

lemma vacancies_loop_eq:
  "vacancies_loop env bs db acc = (Inr rs, db') \<Longrightarrow>
   rs = acc @ number_vacancies (vacancies_id_seq db) (List.map_filter (normalize_vacancy env) bs)
   \<and> db' = db\<lparr>vacancies := vacancies db @
                  number_vacancies (vacancies_id_seq db) (List.map_filter (normalize_vacancy env) bs),
               vacancies_id_seq := vacancies_id_seq db +
                  int (length (number_vacancies (vacancies_id_seq db)
                                (List.map_filter (normalize_vacancy env) bs)))\<rparr>"
  using vacancies_loop_ok[OF vacancies_loop_Inr, of env bs db acc rs db' db acc]
  by (simp add: Let_def)

lemma applicants_loop_ok:
  "\<forall>v\<in>set (List.map_filter normalize_applicant bs). applicant_refused v = None \<Longrightarrow>
   applicants_loop bs db acc =
     (let new = number_applicants (applicants_id_seq db) (List.map_filter normalize_applicant bs)
      in (Inr (acc @ new),
          db\<lparr>applicants := applicants db @ new,
             applicants_id_seq := applicants_id_seq db + int (length new)\<rparr>))"
proof (induction bs arbitrary: db acc)
  case Nil
  show ?case by simp
next
  case (Cons b bs)
  show ?case
  proof (cases "normalize_applicant b")
    case None
    with Cons.prems have p: "\<forall>v\<in>set (List.map_filter normalize_applicant bs). applicant_refused v = None"
      by simp
    from None have "applicants_loop (b # bs) db acc = applicants_loop bs db acc"
      by (auto simp: normalize_applicant_def split: option.splits if_splits)
    with Cons.IH[OF p, of db acc] None show ?thesis by simp
  next
    case (Some v)
    with Cons.prems have a: "applicant_refused v = None"
      and p: "\<forall>v\<in>set (List.map_filter normalize_applicant bs). applicant_refused v = None"
      by simp_all
    let ?v' = "v\<lparr>applicant_id := applicants_id_seq db + 1\<rparr>"
    let ?db' = "db\<lparr>applicants := applicants db @ [?v'], applicants_id_seq := applicants_id_seq db + 1\<rparr>"
    from Some a have "applicants_loop (b # bs) db acc = applicants_loop bs ?db' (acc @ [?v'])"
      by (auto simp: normalize_applicant_def add_applicant_def Let_def
          split: option.splits if_splits)
    with Cons.IH[OF p, of ?db' "acc @ [?v']"] Some show ?thesis by (simp add: Let_def)
  qed
qed

lemma applicants_loop_Inr:
  "applicants_loop bs db acc = (Inr rs, db') \<Longrightarrow>
   \<forall>v\<in>set (List.map_filter normalize_applicant bs). applicant_refused v = None"
proof (induction bs arbitrary: db acc)
  case Nil
  show ?case by simp
next
  case (Cons b bs)
  show ?case
  proof (cases "normalize_applicant b")
    case None
    then have "applicants_loop (b # bs) db acc = applicants_loop bs db acc"
      by (auto simp: normalize_applicant_def split: option.splits if_splits)
    with Cons.prems Cons.IH[of db acc] None show ?thesis by simp
  next
    case (Some v)
    show ?thesis
    proof (cases "applicant_refused v")
      case (Some e)
      with \<open>normalize_applicant b = Some v\<close>
      have "applicants_loop (b # bs) db acc = (Inl e, db)"
        by (auto simp: normalize_applicant_def add_applicant_def Let_def
            split: option.splits if_splits)
      with Cons.prems show ?thesis by simp
    next
      case None
      let ?v' = "v\<lparr>applicant_id := applicants_id_seq db + 1\<rparr>"
      let ?db' = "db\<lparr>applicants := applicants db @ [?v'], applicants_id_seq := applicants_id_seq db + 1\<rparr>"
      from None \<open>normalize_applicant b = Some v\<close>
      have "applicants_loop (b # bs) db acc = applicants_loop bs ?db' (acc @ [?v'])"
        by (auto simp: normalize_applicant_def add_applicant_def Let_def
            split: option.splits if_splits)
      with Cons.prems Cons.IH[of ?db' "acc @ [?v']"] None \<open>normalize_applicant b = Some v\<close>
      show ?thesis by simp
    qed
  qed
qed

lemma applicants_loop_eq:
  "applicants_loop bs db acc = (Inr rs, db') \<Longrightarrow>
   rs = acc @ number_applicants (applicants_id_seq db) (List.map_filter normalize_applicant bs)
   \<and> db' = db\<lparr>applicants := applicants db @
                  number_applicants (applicants_id_seq db) (List.map_filter normalize_applicant bs),
               applicants_id_seq := applicants_id_seq db +
                  int (length (number_applicants (applicants_id_seq db)
                                (List.map_filter normalize_applicant bs)))\<rparr>"
  using applicants_loop_ok[OF applicants_loop_Inr, of bs db acc rs db' db acc]
  by (simp add: Let_def)

lemma vacancies_loop_refused:
  "normalize_vacancy env b = Some v \<Longrightarrow> vacancy_refused v = Some e \<Longrightarrow>
   vacancies_loop env (b # bs) db acc = (Inl e, db)"
  by (auto simp: parse_salary_total normalize_vacancy_def salary_of_def add_vacancy_def Let_def
      split: option.splits if_splits)

section \<open>The handlers on a successful fetch\<close>

lemma length_number_vacancies: "length (number_vacancies n vs) = length vs"
  by (induction vs arbitrary: n) auto

lemma length_number_applicants: "length (number_applicants n as) = length as"
  by (induction as arbitrary: n) auto

lemma number_vacancies_ids:
  "map vacancy_id (number_vacancies n vs) = map (\<lambda>i. n + 1 + int i) [0..<length vs]"
proof (induction vs arbitrary: n)
  case Nil
  show ?case by simp
next
  case (Cons v vs)
  have "map (\<lambda>i. n + 1 + int i) [0..<Suc (length vs)]
        = (n + 1) # map (\<lambda>i. n + 1 + int (Suc i)) [0..<length vs]"
    by (simp only: upt_conv_Cons zero_less_Suc if_True list.map map_Suc_upt[symmetric] map_map o_def) simp
  then show ?case using Cons.IH[of "n + 1"] by (simp add: add.assoc add.commute)
qed

lemma number_applicants_ids:
  "map applicant_id (number_applicants n as) = map (\<lambda>i. n + 1 + int i) [0..<length as]"
proof (induction as arbitrary: n)
  case Nil
  show ?case by simp
next
  case (Cons a as)
  have "map (\<lambda>i. n + 1 + int i) [0..<Suc (length as)]
        = (n + 1) # map (\<lambda>i. n + 1 + int (Suc i)) [0..<length as]"
    by (simp only: upt_conv_Cons zero_less_Suc if_True list.map map_Suc_upt[symmetric] map_map o_def) simp
  then show ?case using Cons.IH[of "n + 1"] by (simp add: add.assoc add.commute)
qed

lemma number_vacancies_fields:
  "map (\<lambda>v. v\<lparr>vacancy_id := 0\<rparr>) (number_vacancies n vs) = map (\<lambda>v. v\<lparr>vacancy_id := 0\<rparr>) vs"
  by (induction vs arbitrary: n) auto

lemma number_applicants_fields:
  "map (\<lambda>v. v\<lparr>applicant_id := 0\<rparr>) (number_applicants n vs) = map (\<lambda>v. v\<lparr>applicant_id := 0\<rparr>) vs"
  by (induction vs arbitrary: n) auto

lemma get_vacancies_ok:
  assumes "status_code (requests_get env (ascii ''https://hh.ru/search/vacancy?text='' @ query)) = 200"
    and "detect_and_decode env (content (requests_get env (ascii ''https://hh.ru/search/vacancy?text='' @ query))) = Inr decoded"
    and "\<forall>v\<in>set (List.map_filter (normalize_vacancy env)
                     (select ''.vacancy-serp-item'' (html_parser env decoded))).
           vacancy_refused v = None"
  shows "get_vacancies env query db =
    (let new = number_vacancies (vacancies_id_seq db)
                 (List.map_filter (normalize_vacancy env) (select ''.vacancy-serp-item'' (html_parser env decoded)))
     in (Inr new, db\<lparr>vacancies := vacancies db @ new,
                     vacancies_id_seq := vacancies_id_seq db + int (length new)\<rparr>))"
  using assms(1,2) vacancies_loop_ok[OF assms(3), of db "[]"]
  by (simp add: get_vacancies_def Let_def)

lemma get_vacancies_accepts:
  assumes "get_vacancies env query db = (Inr rs, db')"
    and "detect_and_decode env (content (requests_get env (ascii ''https://hh.ru/search/vacancy?text='' @ query))) = Inr decoded"
  shows "\<forall>v\<in>set (List.map_filter (normalize_vacancy env)
                     (select ''.vacancy-serp-item'' (html_parser env decoded))).
           vacancy_refused v = None"
proof -
  from assms have "vacancies_loop env (select ''.vacancy-serp-item'' (html_parser env decoded)) db []
                   = (Inr rs, db')"
    by (auto simp: get_vacancies_def Let_def split: if_splits)
  then show ?thesis by (rule vacancies_loop_Inr)
qed

lemma get_applicants_ok:
  assumes "status_code (requests_get env (ascii ''https://hh.ru/search/resume?text='' @ query)) = 200"
    and "detect_and_decode env (content (requests_get env (ascii ''https://hh.ru/search/resume?text='' @ query))) = Inr decoded"
    and "\<forall>a\<in>set (List.map_filter normalize_applicant
                     (select ''.resume-serp-item'' (html_parser env decoded))).
           applicant_refused a = None"
  shows "get_applicants env query db =
    (let new = number_applicants (applicants_id_seq db)
                 (List.map_filter normalize_applicant (select ''.resume-serp-item'' (html_parser env decoded)))
     in (Inr new, db\<lparr>applicants := applicants db @ new,
                     applicants_id_seq := applicants_id_seq db + int (length new)\<rparr>))"
  using assms(1,2) applicants_loop_ok[OF assms(3), of db "[]"]
  by (simp add: get_applicants_def Let_def)

lemma get_applicants_accepts:
  assumes "get_applicants env query db = (Inr rs, db')"
    and "detect_and_decode env (content (requests_get env (ascii ''https://hh.ru/search/resume?text='' @ query))) = Inr decoded"
  shows "\<forall>a\<in>set (List.map_filter normalize_applicant
                     (select ''.resume-serp-item'' (html_parser env decoded))).
           applicant_refused a = None"
proof -
  from assms have "applicants_loop (select ''.resume-serp-item'' (html_parser env decoded)) db []
                   = (Inr rs, db')"
    by (auto simp: get_applicants_def Let_def split: if_splits)
  then show ?thesis by (rule applicants_loop_Inr)
qed

lemma get_vacancies_Inr:
  assumes "get_vacancies env query db = (Inr rs, db')"
  shows "status_code (requests_get env (ascii ''https://hh.ru/search/vacancy?text='' @ query)) = 200
       \<and> (\<exists>decoded. detect_and_decode env (content (requests_get env (ascii ''https://hh.ru/search/vacancy?text='' @ query))) = Inr decoded)"
  using assms by (auto simp: get_vacancies_def Let_def split: if_splits sum.splits)

lemma py_join_concat: "py_join sep (t # ts) = t @ concat (map ((@) sep) ts)"
  by (induction ts arbitrary: t) auto

lemma vacancies_loop_single:
  assumes "vacancies_loop env [b] db [] = (Inr [r], db')"
  shows "\<exists>v. normalize_vacancy env b = Some v \<and> r = v\<lparr>vacancy_id := vacancies_id_seq db + 1\<rparr>
           \<and> vacancies db' = vacancies db @ [r]"
  using vacancies_loop_eq[OF assms] by (auto split: option.splits)

section \<open>What the salary text keeps\<close>

lemma salary_text_filter: "salary_text t = filter (\<lambda>c. c \<noteq> 32) (py_replace rub [] t)"
  by (simp add: salary_text_def py_replace_char)

lemma salary_text_append_rub: "salary_text (a @ rub @ b) = salary_text a @ salary_text b"
  by (simp add: salary_text_filter py_replace_rub_append)

lemma salary_text_absent:
  "\<forall>a b. t \<noteq> a @ rub @ b \<Longrightarrow> salary_text t = filter (\<lambda>c. c \<noteq> 32) t"
  by (simp add: salary_text_filter py_replace_absent rub_def)

lemma salary_text_others:
  "filter (\<lambda>c. c \<notin> set rub \<and> c \<noteq> 32) (salary_text t) = filter (\<lambda>c. c \<notin> set rub \<and> c \<noteq> 32) t"
proof -
  have "filter (\<lambda>c. c \<notin> set rub \<and> c \<noteq> 32) (py_replace rub [] t)
        = filter (\<lambda>c. c \<notin> set rub \<and> c \<noteq> 32) t"
    by (rule filter_py_replace) (simp_all add: rub_def)
  moreover have "filter (\<lambda>c. c \<notin> set rub \<and> c \<noteq> 32) (salary_text t)
        = filter (\<lambda>c. c \<notin> set rub \<and> c \<noteq> 32) (py_replace rub [] t)"
    by (simp add: salary_text_filter conj_commute cong: conj_cong)
  ultimately show ?thesis by simp
qed

lemma set_salary_text: "set (salary_text t) \<subseteq> set t"
  using set_py_replace[of rub t] by (auto simp: salary_text_filter rub_def)

lemma mid_token: "salary_text (ascii ''1'' @ rub @ ascii ''000'') = ascii ''1000''"
  by (simp add: salary_text_append_rub) (simp add: salary_text_filter ascii_def rub_def py_replace.simps)

lemma py_int_1000: "py_int td m (ascii ''1000'') = Inr 1000"
  by (simp add: py_int_def PyLong_FromString_def TransformDecimalAndSpaceToASCII_def ascii_def
      Py_ISSPACE_def is_ascii_digit_def digits_value_def)

lemma nbsp_text: "salary_text (ascii ''1'' @ 160 # ascii ''000 '' @ rub) = [49, 160, 48, 48, 48]"
proof -
  have "salary_text ((ascii ''1'' @ 160 # ascii ''000 '') @ rub @ []) 
        = salary_text (ascii ''1'' @ 160 # ascii ''000 '') @ salary_text []"
    by (rule salary_text_append_rub)
  then show ?thesis
    by (simp add: salary_text_filter ascii_def rub_def py_replace.simps)
qed

lemma py_int_nbsp: "py_int td m [49, 160, 48, 48, 48] = Inl ValueError"
  by (simp add: py_int_def PyLong_FromString_def TransformDecimalAndSpaceToASCII_def
      Py_ISSPACE_def Py_UNICODE_ISSPACE_def is_ascii_digit_def digits_value_def)

section \<open>Where a stored salary comes from\<close>

lemma number_vacancies_mem:
  "r \<in> set (number_vacancies n vs) \<Longrightarrow> \<exists>v\<in>set vs. \<exists>k. r = v\<lparr>vacancy_id := k\<rparr>"
  by (induction vs arbitrary: n) auto

lemma map_filter_mem: "v \<in> set (List.map_filter f xs) \<Longrightarrow> \<exists>x\<in>set xs. f x = Some v"
  by (induction xs) (auto simp: split: option.splits)

lemma normalize_vacancy_salary: "normalize_vacancy env b = Some v \<Longrightarrow> salary v = salary_of env b"
  by (auto simp: normalize_vacancy_def split: option.splits if_splits)

lemma salary_of_negative:
  assumes "salary_of env b = Some n" "n < 0"
  shows "\<exists>el. select_one ''.vacancy-serp-item__sidebar'' b = Some el \<and> 45 \<in> set (get_text el)"
proof -
  from assms(1) obtain el where el: "select_one ''.vacancy-serp-item__sidebar'' b = Some el"
    and p: "py_int (unicode_todecimal env) (int_max_str_digits env) (salary_text (get_text el)) = Inr n"
    by (auto simp: salary_of_def split: option.splits sum.splits)
  have "45 \<in> set (salary_text (get_text el))"
  proof (rule ccontr)
    assume "45 \<notin> set (salary_text (get_text el))"
    from py_int_nonneg[OF this p] assms(2) show False by simp
  qed
  then have "45 \<in> set (get_text el)" using set_salary_text by blast
  with el show ?thesis by blast
qed

section \<open>Texts of digits and spaces\<close>

lemma re_digit_ascii: "re_digit td c \<Longrightarrow> c < 128 \<Longrightarrow> is_ascii_digit c"
  by (auto simp: re_digit_def)

lemma re_digit_to_ascii: "re_digit td c \<Longrightarrow> is_ascii_digit (48 + digit_of td c)"
  by (auto simp: re_digit_def digit_of_def is_ascii_digit_def split: option.splits)

lemma transform_slow_digits:
  "\<forall>c\<in>set ds. re_digit td c \<Longrightarrow> transform_slow td ds = map (\<lambda>c. 48 + digit_of td c) ds"
proof (induction ds)
  case Nil
  show ?case by simp
next
  case (Cons c cs)
  then have c: "re_digit td c" and IH: "transform_slow td cs = map (\<lambda>c. 48 + digit_of td c) cs"
    by simp_all
  show ?case
  proof (cases "c < 127")
    case True
    with c have "is_ascii_digit c" by (auto simp: re_digit_def)
    then have "48 + digit_of td c = c" using True by (simp add: digit_of_def is_ascii_digit_def)
    with True IH show ?thesis by simp
  next
    case False
    with c have "128 \<le> c" "\<not> Py_UNICODE_ISSPACE c" and "\<exists>d. td c = Some d"
      by (auto simp: re_digit_def is_ascii_digit_def split: option.splits)
    with False IH show ?thesis by (auto simp: digit_of_def)
  qed
qed

lemma transform_digits:
  assumes "\<forall>c\<in>set ds. re_digit td c"
  shows "TransformDecimalAndSpaceToASCII td ds = map (\<lambda>c. 48 + digit_of td c) ds"
proof (cases "list_all (\<lambda>ch. ch < 128) ds")
  case True
  have "map (\<lambda>c. 48 + digit_of td c) ds = ds"
  proof (rule map_idI)
    fix c assume m: "c \<in> set ds"
    with True have lt: "c < 128" by (simp add: list_all_iff)
    with assms m have "is_ascii_digit c" using re_digit_ascii by blast
    with lt show "48 + digit_of td c = c" by (simp add: digit_of_def is_ascii_digit_def)
  qed
  with True show ?thesis by (simp add: TransformDecimalAndSpaceToASCII_def)
next
  case False
  then show ?thesis using transform_slow_digits[OF assms]
    by (simp add: TransformDecimalAndSpaceToASCII_def)
qed

lemma py_int_digits:
  assumes "\<forall>c\<in>set ds. re_digit td c" "ds \<noteq> []"
    and "length ds \<le> 640 \<or> m = 0 \<or> length ds \<le> m"
  shows "py_int td m ds = Inr (int (digits_value (map (digit_of td) ds)))"
proof -
  let ?a = "map (\<lambda>c. 48 + digit_of td c) ds"
  have a: "list_all is_ascii_digit ?a" using assms(1) re_digit_to_ascii
    by (auto simp: list_all_iff)
  have n: "?a \<noteq> []" using assms(2) by simp
  have l: "length ?a \<le> 640 \<or> m = 0 \<or> length ?a \<le> m" using assms(3) by simp
  have mm: "map (\<lambda>c. c - 48) ?a = map (digit_of td) ds" by (simp add: o_def)
  from PyLong_FromString_digits[OF a n l]
  have "PyLong_FromString m ?a = Inr (int (digits_value (map (digit_of td) ds)))"
    by (simp only: mm)
  then show ?thesis by (simp only: py_int_def transform_digits[OF assms(1)])
qed

lemma salary_text_body:
  assumes "\<forall>c\<in>set body. re_digit td c \<or> c = 32"
  shows "salary_text (body @ rub) = filter (re_digit td) body"
proof -
  have n46: "\<not> re_digit td 46" by (simp add: re_digit_def is_ascii_digit_def)
  have "46 \<notin> set body"
  proof
    assume "46 \<in> set body"
    with assms have "re_digit td 46 \<or> (46::nat) = 32" by blast
    with n46 show False by simp
  qed
  have free: "\<forall>a b. body \<noteq> a @ rub @ b"
  proof (intro allI notI)
    fix a b assume "body = a @ rub @ b"
    then have "46 \<in> set body" by (simp add: rub_def)
    with \<open>46 \<notin> set body\<close> show False by simp
  qed
  have "salary_text (body @ rub @ []) = salary_text body @ salary_text []"
    by (rule salary_text_append_rub)
  moreover have "salary_text [] = []" by (simp add: salary_text_filter py_replace_Nil rub_def)
  moreover have "salary_text body = filter (\<lambda>c. c \<noteq> 32) body"
    using free by (rule salary_text_absent)
  moreover have "filter (\<lambda>c. c \<noteq> 32) body = filter (re_digit td) body"
  proof (rule filter_cong[OF refl])
    fix c assume "c \<in> set body"
    with assms have "re_digit td c \<or> c = 32" by blast
    moreover have "\<not> re_digit td 32" by (simp add: re_digit_def is_ascii_digit_def Py_UNICODE_ISSPACE_def)
    ultimately show "(c \<noteq> 32) = re_digit td c" by auto
  qed
  ultimately show ?thesis by simp
qed

section \<open>Decoding and the response model\<close>

lemma utf_8_decode_error: "utf_8_decode body = Inl e \<Longrightarrow> e = UnicodeDecodeError"
  by (auto simp: utf_8_decode_def split: option.splits)

lemma response_list_Inr:
  "response_list model xs = Inr ys \<Longrightarrow> list_all2 (\<lambda>x y. model x = Inr y) xs ys"
  by (induction xs arbitrary: ys) (auto split: sum.splits)

lemma VacancyResponse_Inr:
  "VacancyResponse v = Inr entry \<Longrightarrow>
   \<exists>e. employment_format v = Some e \<and>
       entry = [(''title'', JStr (title v)), (''description'', JStr (description v)),
                (''skills'', JStr (skills v)), (''employment_format'', JStr e),
                (''id'', JInt (vacancy_id v))]"
  by (auto simp: VacancyResponse_def split: option.splits)

section \<open>The claims\<close>

text \<open>
  Claim C5. When the upstream site answers with a status other than 200, each handler
  raises an \<open>HTTPException\<close> carrying that status and the error detail before it decodes,
  parses or stores anything: the route answers with that status and the storage is the
  one it was given.
\<close>

theorem non_200_aborts:
  assumes "status_code (requests_get env (ascii ''https://hh.ru/search/vacancy?text='' @ query)) = s"
    and "status_code (requests_get env (ascii ''https://hh.ru/search/resume?text='' @ query')) = s'"
    and "s \<noteq> 200" and "s' \<noteq> 200"
  shows "get_vacancies env query db = (Inl (HTTPException s ''Error fetching data from hh.ru''), db)
       \<and> vacancies_route env query db = (Inl (HTTPException s ''Error fetching data from hh.ru''), db)
       \<and> http_status (fst (vacancies_route env query db)) = s
       \<and> get_applicants env query' db = (Inl (HTTPException s' ''Error fetching data from hh.ru''), db)
       \<and> applicants_route env query' db = (Inl (HTTPException s' ''Error fetching data from hh.ru''), db)
       \<and> http_status (fst (applicants_route env query' db)) = s'"
  using assms
  by (simp add: get_vacancies_def vacancies_route_def get_applicants_def applicants_route_def Let_def)

theorem non_200_aborts_witness:
  "get_vacancies (site 503 [] (page [item engineer])) (ascii ''python'') empty_db
     = (Inl (HTTPException 503 ''Error fetching data from hh.ru''), empty_db)
   \<and> vacancies_route (site 503 [] (page [item engineer])) (ascii ''python'') empty_db
     = (Inl (HTTPException 503 ''Error fetching data from hh.ru''), empty_db)
   \<and> http_status (fst (vacancies_route (site 503 [] (page [item engineer])) (ascii ''python'') empty_db)) = 503
   \<and> get_applicants (site 503 [] (page [item engineer])) (ascii ''python'') empty_db
     = (Inl (HTTPException 503 ''Error fetching data from hh.ru''), empty_db)
   \<and> applicants_route (site 503 [] (page [item engineer])) (ascii ''python'') empty_db
     = (Inl (HTTPException 503 ''Error fetching data from hh.ru''), empty_db)
   \<and> http_status (fst (applicants_route (site 503 [] (page [item engineer])) (ascii ''python'') empty_db)) = 503"
  using non_200_aborts [of "site 503 [] (page [item engineer])" "ascii ''python''" 503 "ascii ''python''" 503 empty_db]
  by (simp add: site_def)

text \<open>
  Claim C4. A block in which the title or the description (vacancy path) or the name
  (applicant path) is absent yields nothing: the loop goes on with the storage and the
  result list unchanged and raises nothing, so a block alone leaves both as they were, and
  the normalizer gives no record for it.
\<close>

theorem missing_required_field_skips:
  "(select_one ''.vacancy-serp-item__title'' b = None \<or>
    select_one ''.vacancy-serp-item__snippet'' b = None \<longrightarrow>
      vacancies_loop env (b # bs) db acc = vacancies_loop env bs db acc \<and>
      vacancies_loop env [b] db acc = (Inr acc, db) \<and>
      normalize_vacancy env b = None) \<and>
   (select_one ''.resume-search-item__fullname'' a = None \<longrightarrow>
      applicants_loop (a # as) db acc' = applicants_loop as db acc' \<and>
      applicants_loop [a] db acc' = (Inr acc', db) \<and>
      normalize_applicant a = None)"
  by (auto simp: parse_salary_total normalize_vacancy_def normalize_applicant_def split: option.splits)

theorem missing_required_field_skips_witness:
  "select_one ''.vacancy-serp-item__title'' (item [element ''vacancy-serp-item__snippet'' (ascii ''Build stuff'')]) = None
   \<and> vacancies_loop (site 200 ''<html>'' (page [])) [item [element ''vacancy-serp-item__snippet'' (ascii ''Build stuff'')], item engineer] empty_db []
      = vacancies_loop (site 200 ''<html>'' (page [])) [item engineer] empty_db []
   \<and> vacancies_loop (site 200 ''<html>'' (page [])) [item [element ''vacancy-serp-item__snippet'' (ascii ''Build stuff'')]] empty_db [] = (Inr [], empty_db)
   \<and> select_one ''.resume-search-item__fullname'' (Tag [''resume-serp-item''] []) = None
   \<and> applicants_loop [Tag [''resume-serp-item''] []] empty_db [] = (Inr [], empty_db)"
proof -
  have t: "select_one ''.vacancy-serp-item__title'' (item [element ''vacancy-serp-item__snippet'' (ascii ''Build stuff'')]) = None"
    by (simp add: select_one_def select_def item_def element_def)
  have n: "select_one ''.resume-search-item__fullname'' (Tag [''resume-serp-item''] []) = None"
    by (simp add: select_one_def select_def)
  show ?thesis
    using t n missing_required_field_skips [of "item [element ''vacancy-serp-item__snippet'' (ascii ''Build stuff'')]"
      "site 200 ''<html>'' (page [])" "[item engineer]" empty_db "[]" "Tag [''resume-serp-item''] []" "[]" "[]"]
    by simp
qed

text \<open>
  Claim C9, as stated, fails: not every decoded document gives a sequence of records. A
  block whose sidebar reads three thousand million and the currency token is normalized to
  a record with that salary, the commit of the record raises \<open>DataError\<close>, and the handler
  ends with the exception and returns nothing.
\<close>

theorem output_in_document_order_counterexample:
  "get_vacancies (site 200 ''<html>'' (page [item rich])) (ascii ''python'') empty_db
     = (Inl DataError, empty_db)"
proof -
  let ?W = "site 200 ''<html>'' (page [item rich])"
  let ?url = "ascii ''https://hh.ru/search/vacancy?text='' @ ascii ''python''"
  have t: "salary_text (ascii ''3000000000 '' @ rub) = ascii ''3000000000''"
    using salary_text_append_rub [of "ascii ''3000000000 ''" "[]"]
    by (simp add: salary_text_filter ascii_def rub_def py_replace.simps)
  have p: "py_int td m (ascii ''3000000000'') = Inr 3000000000" for td m
    by (simp add: py_int_def PyLong_FromString_def TransformDecimalAndSpaceToASCII_def ascii_def
        Py_ISSPACE_def is_ascii_digit_def digits_value_def)
  have ne: "ascii ''Engineer'' \<noteq> []" "ascii ''Build stuff'' \<noteq> []"
    by (simp_all add: ascii_def)
  have n: "normalize_vacancy ?W (item rich) =
             Some \<lparr>vacancy_id = 0, title = ascii ''Engineer'', description = ascii ''Build stuff'',
                   skills = [], employment_format = None, salary = Some 3000000000\<rparr>"
    by (simp add: normalize_vacancy_def salary_of_def select_one_def select_def item_def rich_def
        engineer_def element_def t p ne)
  have r: "vacancy_refused \<lparr>vacancy_id = 0, title = ascii ''Engineer'',
             description = ascii ''Build stuff'', skills = [], employment_format = None,
             salary = Some 3000000000\<rparr> = Some DataError"
    by (simp add: vacancy_refused_def text_refused_def integer_refused_def is_surrogate_def
        ascii_def)
  have l: "vacancies_loop ?W [item rich] empty_db [] = (Inl DataError, empty_db)"
    using n r by (rule vacancies_loop_refused)
  have st: "status_code (requests_get ?W ?url) = 200"
    and c: "content (requests_get ?W ?url) = ''<html>''"
    and h: "html_parser ?W (ascii ''<html>'') = page [item rich]"
    by (simp_all add: site_def)
  have d: "detect_and_decode ?W ''<html>'' = Inr (ascii ''<html>'')" by code_simp
  have s: "select ''.vacancy-serp-item'' (page [item rich]) = [item rich]"
    by (simp add: select_def page_def item_def rich_def engineer_def element_def)
  have "get_vacancies ?W (ascii ''python'') empty_db =
          vacancies_loop ?W (select ''.vacancy-serp-item'' (html_parser ?W (ascii ''<html>''))) empty_db []"
    unfolding get_vacancies_def Let_def st c d by simp
  then show ?thesis unfolding h s l .
qed

text \<open>
  Claim C9, amended. After a successful fetch and decoding, when the storage accepts every
  normalized record of the document (no text with U+0000 or a surrogate, the salary within
  32 bits), each handler returns the records it has stored, in the document order of the
  blocks that match the item selector: the normalized blocks, the skipped ones left out,
  numbered consecutively from the sequence of the table whatever the positions of their
  blocks. The storage gains exactly these records. A handler returns a list only when the
  storage has accepted every normalized record. When no block matches the item selector,
  the route answers with the empty list and status 200 and the storage is unchanged.
\<close>

theorem output_in_document_order:
  assumes "status_code (requests_get env (ascii ''https://hh.ru/search/vacancy?text='' @ query)) = 200"
    and "detect_and_decode env (content (requests_get env (ascii ''https://hh.ru/search/vacancy?text='' @ query))) = Inr decoded"
    and "status_code (requests_get env (ascii ''https://hh.ru/search/resume?text='' @ query')) = 200"
    and "detect_and_decode env (content (requests_get env (ascii ''https://hh.ru/search/resume?text='' @ query'))) = Inr decoded'"
    and "ns = List.map_filter (normalize_vacancy env)
                (select ''.vacancy-serp-item'' (html_parser env decoded))"
    and "vs = number_vacancies (vacancies_id_seq db) ns"
    and "ms = List.map_filter normalize_applicant
                (select ''.resume-serp-item'' (html_parser env decoded'))"
    and "as = number_applicants (applicants_id_seq db) ms"
  shows "((\<forall>v\<in>set ns. vacancy_refused v = None) \<longrightarrow>
          get_vacancies env query db =
            (Inr vs, db\<lparr>vacancies := vacancies db @ vs,
                        vacancies_id_seq := vacancies_id_seq db + int (length vs)\<rparr>))
       \<and> (\<forall>rs db'. get_vacancies env query db = (Inr rs, db') \<longrightarrow>
            (\<forall>v\<in>set ns. vacancy_refused v = None))
       \<and> map vacancy_id vs = map (\<lambda>i. vacancies_id_seq db + 1 + int i) [0..<length vs]
       \<and> ((\<forall>a\<in>set ms. applicant_refused a = None) \<longrightarrow>
          get_applicants env query' db =
            (Inr as, db\<lparr>applicants := applicants db @ as,
                        applicants_id_seq := applicants_id_seq db + int (length as)\<rparr>))
       \<and> (\<forall>rs db'. get_applicants env query' db = (Inr rs, db') \<longrightarrow>
            (\<forall>a\<in>set ms. applicant_refused a = None))
       \<and> map applicant_id as = map (\<lambda>i. applicants_id_seq db + 1 + int i) [0..<length as]
       \<and> (select ''.vacancy-serp-item'' (html_parser env decoded) = [] \<longrightarrow>
            vacancies_route env query db = (Inr [], db)
            \<and> http_status (fst (vacancies_route env query db)) = 200)
       \<and> (select ''.resume-serp-item'' (html_parser env decoded') = [] \<longrightarrow>
            applicants_route env query' db = (Inr [], db)
            \<and> http_status (fst (applicants_route env query' db)) = 200)"
proof -
  have v: "(\<forall>v\<in>set ns. vacancy_refused v = None) \<longrightarrow>
          get_vacancies env query db =
            (Inr vs, db\<lparr>vacancies := vacancies db @ vs,
                        vacancies_id_seq := vacancies_id_seq db + int (length vs)\<rparr>)"
    using get_vacancies_ok[OF assms(1,2)] assms(5,6) by (simp add: Let_def)
  have a: "(\<forall>a\<in>set ms. applicant_refused a = None) \<longrightarrow>
          get_applicants env query' db =
            (Inr as, db\<lparr>applicants := applicants db @ as,
                        applicants_id_seq := applicants_id_seq db + int (length as)\<rparr>)"
    using get_applicants_ok[OF assms(3,4)] assms(7,8) by (simp add: Let_def)
  have vr: "\<forall>rs db'. get_vacancies env query db = (Inr rs, db') \<longrightarrow>
            (\<forall>v\<in>set ns. vacancy_refused v = None)"
    using get_vacancies_accepts[OF _ assms(2)] assms(5) by blast
  have ar: "\<forall>rs db'. get_applicants env query' db = (Inr rs, db') \<longrightarrow>
            (\<forall>a\<in>set ms. applicant_refused a = None)"
    using get_applicants_accepts[OF _ assms(4)] assms(7) by blast
  have vi: "map vacancy_id vs = map (\<lambda>i. vacancies_id_seq db + 1 + int i) [0..<length vs]"
    unfolding assms(6) by (simp only: number_vacancies_ids length_number_vacancies)
  have ai: "map applicant_id as = map (\<lambda>i. applicants_id_seq db + 1 + int i) [0..<length as]"
    unfolding assms(8) by (simp only: number_applicants_ids length_number_applicants)
  have ve: "select ''.vacancy-serp-item'' (html_parser env decoded) = [] \<longrightarrow>
            vacancies_route env query db = (Inr [], db)
            \<and> http_status (fst (vacancies_route env query db)) = 200"
    using v assms(5,6) by (simp add: vacancies_route_def)
  have ae: "select ''.resume-serp-item'' (html_parser env decoded') = [] \<longrightarrow>
            applicants_route env query' db = (Inr [], db)
            \<and> http_status (fst (applicants_route env query' db)) = 200"
    using a assms(7,8) by (simp add: applicants_route_def)
  from v a vr ar vi ai ve ae show ?thesis by blast
qed

theorem output_in_document_order_witness:
  "get_vacancies (site 200 ''<html>'' listing) (ascii ''python'') empty_db =
     (Inr [\<lparr>vacancy_id = 1, title = ascii ''Engineer'', description = ascii ''Build stuff'',
             skills = [], employment_format = None, salary = None\<rparr>,
           \<lparr>vacancy_id = 2, title = ascii ''Tester'', description = ascii ''Test stuff'',
             skills = ascii ''Python, SQL'', employment_format = None, salary = None\<rparr>],
      \<lparr>vacancies =
         [\<lparr>vacancy_id = 1, title = ascii ''Engineer'', description = ascii ''Build stuff'',
            skills = [], employment_format = None, salary = None\<rparr>,
          \<lparr>vacancy_id = 2, title = ascii ''Tester'', description = ascii ''Test stuff'',
            skills = ascii ''Python, SQL'', employment_format = None, salary = None\<rparr>],
       applicants = [], vacancies_id_seq = 2, applicants_id_seq = 0\<rparr>)
   \<and> get_applicants (site 200 ''<html>'' listing) (ascii ''python'') empty_db =
     (Inr [\<lparr>applicant_id = 1, name = ascii ''Ann'', applicant_skills = []\<rparr>],
      \<lparr>vacancies = [],
       applicants = [\<lparr>applicant_id = 1, name = ascii ''Ann'', applicant_skills = []\<rparr>],
       vacancies_id_seq = 0, applicants_id_seq = 1\<rparr>)
   \<and> vacancies_route (site 200 ''<html>'' (page [])) (ascii ''python'') empty_db = (Inr [], empty_db)
   \<and> http_status (fst (vacancies_route (site 200 ''<html>'' (page [])) (ascii ''python'') empty_db)) = 200
   \<and> applicants_route (site 200 ''<html>'' (page [])) (ascii ''python'') empty_db = (Inr [], empty_db)
   \<and> http_status (fst (applicants_route (site 200 ''<html>'' (page [])) (ascii ''python'') empty_db)) = 200"
proof -
  let ?W = "site 200 ''<html>'' listing" and ?E = "site 200 ''<html>'' (page [])"
  let ?q = "ascii ''python''"
  let ?vs = "[\<lparr>vacancy_id = 1, title = ascii ''Engineer'', description = ascii ''Build stuff'',
             skills = [], employment_format = None, salary = None\<rparr>,
           \<lparr>vacancy_id = 2, title = ascii ''Tester'', description = ascii ''Test stuff'',
             skills = ascii ''Python, SQL'', employment_format = None, salary = None\<rparr>]"
  let ?as = "[\<lparr>applicant_id = 1, name = ascii ''Ann'', applicant_skills = []\<rparr>]"
  have s1: "status_code (requests_get ?W (ascii ''https://hh.ru/search/vacancy?text='' @ ?q)) = 200"
    and s2: "status_code (requests_get ?W (ascii ''https://hh.ru/search/resume?text='' @ ?q)) = 200"
    and s3: "status_code (requests_get ?E (ascii ''https://hh.ru/search/vacancy?text='' @ ?q)) = 200"
    and s4: "status_code (requests_get ?E (ascii ''https://hh.ru/search/resume?text='' @ ?q)) = 200"
    by (simp_all add: site_def)
  have d1: "detect_and_decode ?W (content (requests_get ?W (ascii ''https://hh.ru/search/vacancy?text='' @ ?q))) = Inr (ascii ''<html>'')"
    by code_simp
  have d2: "detect_and_decode ?W (content (requests_get ?W (ascii ''https://hh.ru/search/resume?text='' @ ?q))) = Inr (ascii ''<html>'')"
    by code_simp
  have d3: "detect_and_decode ?E (content (requests_get ?E (ascii ''https://hh.ru/search/vacancy?text='' @ ?q))) = Inr (ascii ''<html>'')"
    by code_simp
  have d4: "detect_and_decode ?E (content (requests_get ?E (ascii ''https://hh.ru/search/resume?text='' @ ?q))) = Inr (ascii ''<html>'')"
    by code_simp
  let ?ns = "[\<lparr>vacancy_id = 0, title = ascii ''Engineer'', description = ascii ''Build stuff'',
             skills = [], employment_format = None, salary = None\<rparr>,
           \<lparr>vacancy_id = 0, title = ascii ''Tester'', description = ascii ''Test stuff'',
             skills = ascii ''Python, SQL'', employment_format = None, salary = None\<rparr>]"
  let ?ms = "[\<lparr>applicant_id = 0, name = ascii ''Ann'', applicant_skills = []\<rparr>]"
  have n: "?ns = List.map_filter (normalize_vacancy ?W)
                   (select ''.vacancy-serp-item'' (html_parser ?W (ascii ''<html>'')))"
    by code_simp
  have v: "?vs = number_vacancies (vacancies_id_seq empty_db) ?ns"
    by (simp add: empty_db_def)
  have m: "?ms = List.map_filter normalize_applicant
                   (select ''.resume-serp-item'' (html_parser ?W (ascii ''<html>'')))"
    by code_simp
  have a: "?as = number_applicants (applicants_id_seq empty_db) ?ms"
    by (simp add: empty_db_def)
  have n0: "[] = List.map_filter (normalize_vacancy ?E)
                   (select ''.vacancy-serp-item'' (html_parser ?E (ascii ''<html>'')))"
    by code_simp
  have v0: "[] = number_vacancies (vacancies_id_seq empty_db) []" by simp
  have m0: "[] = List.map_filter normalize_applicant
                   (select ''.resume-serp-item'' (html_parser ?E (ascii ''<html>'')))"
    by code_simp
  have a0: "[] = number_applicants (applicants_id_seq empty_db) []" by simp
  have okv: "\<forall>v\<in>set ?ns. vacancy_refused v = None"
    by (simp add: vacancy_refused_def text_refused_def is_surrogate_def ascii_def)
  have oka: "\<forall>a\<in>set ?ms. applicant_refused a = None"
    by (simp add: applicant_refused_def text_refused_def is_surrogate_def ascii_def)
  have e1: "select ''.vacancy-serp-item'' (html_parser ?E (ascii ''<html>'')) = []"
    and e2: "select ''.resume-serp-item'' (html_parser ?E (ascii ''<html>'')) = []"
    by (simp_all add: site_def page_def select_def)
  note A = output_in_document_order [OF s1 d1 s2 d2 n v m a]
  note B = output_in_document_order [OF s3 d3 s4 d4 n0 v0 m0 a0]
  from A okv oka have A1: "get_vacancies ?W ?q empty_db =
      (Inr ?vs, empty_db\<lparr>vacancies := vacancies empty_db @ ?vs,
                       vacancies_id_seq := vacancies_id_seq empty_db + int (length ?vs)\<rparr>)"
    and A2: "get_applicants ?W ?q empty_db =
      (Inr ?as, empty_db\<lparr>applicants := applicants empty_db @ ?as,
                       applicants_id_seq := applicants_id_seq empty_db + int (length ?as)\<rparr>)"
    by blast+
  from B e1 e2 have B1: "vacancies_route ?E ?q empty_db = (Inr [], empty_db)"
    and B2: "http_status (fst (vacancies_route ?E ?q empty_db)) = 200"
    and B3: "applicants_route ?E ?q empty_db = (Inr [], empty_db)"
    and B4: "http_status (fst (applicants_route ?E ?q empty_db)) = 200"
    by blast+
  have r1: "empty_db\<lparr>vacancies := vacancies empty_db @ ?vs,
                       vacancies_id_seq := vacancies_id_seq empty_db + int (length ?vs)\<rparr>
         = \<lparr>vacancies = ?vs, applicants = [], vacancies_id_seq = 2, applicants_id_seq = 0\<rparr>"
    by (simp add: empty_db_def)
  have r2: "empty_db\<lparr>applicants := applicants empty_db @ ?as,
                       applicants_id_seq := applicants_id_seq empty_db + int (length ?as)\<rparr>
         = \<lparr>vacancies = [], applicants = ?as, vacancies_id_seq = 0, applicants_id_seq = 1\<rparr>"
    by (simp add: empty_db_def)
  from A1 A2 B1 B2 B3 B4 show ?thesis unfolding r1 r2 by blast
qed

text \<open>
  Claim C7. The skills string of a stored vacancy is the list of the texts of the skill tags
  of its block joined with a comma and a space: the first token followed by each further
  token behind the separator. The tokens \<open>Python\<close> and \<open>SQL\<close> give \<open>Python, SQL\<close>.
\<close>

theorem skills_joined:
  assumes "vacancies_loop env [b] db [] = (Inr [r], db')"
    and "tokens = map get_text (select ''.bloko-tag__section_text'' b)"
  shows "skills r = py_join (ascii '', '') tokens
       \<and> skills r = (case tokens of [] \<Rightarrow> [] | t # ts \<Rightarrow> t @ concat (map ((@) (ascii '', '')) ts))
       \<and> vacancies db' = vacancies db @ [r]"
proof -
  from vacancies_loop_single[OF assms(1)] obtain v where
    v: "normalize_vacancy env b = Some v" "r = v\<lparr>vacancy_id := vacancies_id_seq db + 1\<rparr>"
    and d: "vacancies db' = vacancies db @ [r]" by blast
  from v have s: "skills r = py_join (ascii '', '') tokens"
    by (auto simp: normalize_vacancy_def assms(2) split: option.splits if_splits)
  have "py_join (ascii '', '') tokens
        = (case tokens of [] \<Rightarrow> [] | t # ts \<Rightarrow> t @ concat (map ((@) (ascii '', '')) ts))"
    by (cases tokens) (simp_all add: py_join_concat)
  with s d show ?thesis by simp
qed

theorem skills_joined_witness:
  "vacancies_loop (site 200 ''<html>'' listing) [item tester] empty_db [] =
     (Inr [\<lparr>vacancy_id = 1, title = ascii ''Tester'', description = ascii ''Test stuff'',
             skills = ascii ''Python, SQL'', employment_format = None, salary = None\<rparr>],
      \<lparr>vacancies =
         [\<lparr>vacancy_id = 1, title = ascii ''Tester'', description = ascii ''Test stuff'',
            skills = ascii ''Python, SQL'', employment_format = None, salary = None\<rparr>],
       applicants = [], vacancies_id_seq = 1, applicants_id_seq = 0\<rparr>)
   \<and> [ascii ''Python'', ascii ''SQL''] = map get_text (select ''.bloko-tag__section_text'' (item tester))
   \<and> ascii ''Python, SQL'' = py_join (ascii '', '') [ascii ''Python'', ascii ''SQL'']"
proof -
  let ?r = "\<lparr>vacancy_id = 1, title = ascii ''Tester'', description = ascii ''Test stuff'',
             skills = ascii ''Python, SQL'', employment_format = None, salary = None\<rparr>"
  have l: "vacancies_loop (site 200 ''<html>'' listing) [item tester] empty_db [] =
     (Inr [?r], \<lparr>vacancies = [?r], applicants = [], vacancies_id_seq = 1, applicants_id_seq = 0\<rparr>)"
    by code_simp
  have t: "[ascii ''Python'', ascii ''SQL''] = map get_text (select ''.bloko-tag__section_text'' (item tester))"
    by code_simp
  from skills_joined [OF l t] have "skills ?r = py_join (ascii '', '') [ascii ''Python'', ascii ''SQL'']"
    by blast
  then have "ascii ''Python, SQL'' = py_join (ascii '', '') [ascii ''Python'', ascii ''SQL'']"
    by simp
  with l t show ?thesis by blast
qed

text \<open>
  Claim C8, as stated, fails when the table already holds records: with one record stored
  and one block on the page, the counts after the first and the second invocation are 2
  and 3.
\<close>

theorem second_run_duplicates_counterexample:
  "length (vacancies (snd (get_vacancies (site 200 ''<html>'' (page [item engineer])) (ascii ''python'') analyst_db))) = 2
   \<and> length (vacancies (snd (get_vacancies (site 200 ''<html>'' (page [item engineer])) (ascii ''python'')
        (snd (get_vacancies (site 200 ''<html>'' (page [item engineer])) (ascii ''python'') analyst_db))))) = 3"
  by code_simp

text \<open>
  Claim C8, amended. A second invocation with the same query and the same upstream content
  succeeds when the first did and stores the same records again, under new identities: the
  identities of the second run continue the numbering after those of the first, and no
  identity belongs to a record of both runs. The count after the second invocation is the
  count after the first plus the number of records the first one returned. It is double the
  count after the first exactly when the table was empty before the first invocation.
\<close>

theorem second_run_duplicates:
  assumes "get_vacancies env query db0 = (Inr r1, db1)"
  shows "\<exists>r2 db2. get_vacancies env query db1 = (Inr r2, db2)
           \<and> map (\<lambda>v. v\<lparr>vacancy_id := 0\<rparr>) r2 = map (\<lambda>v. v\<lparr>vacancy_id := 0\<rparr>) r1
           \<and> map vacancy_id r1 = map (\<lambda>i. vacancies_id_seq db0 + 1 + int i) [0..<length r1]
           \<and> map vacancy_id r2 =
               map (\<lambda>i. vacancies_id_seq db0 + int (length r1) + 1 + int i) [0..<length r2]
           \<and> set (map vacancy_id r1) \<inter> set (map vacancy_id r2) = {}
           \<and> vacancies db1 = vacancies db0 @ r1
           \<and> vacancies db2 = vacancies db1 @ r2
           \<and> length (vacancies db2) = length (vacancies db1) + length r1
           \<and> (length (vacancies db2) = 2 * length (vacancies db1) \<longleftrightarrow> vacancies db0 = [])"
proof -
  from get_vacancies_Inr[OF assms] obtain decoded where
    st: "status_code (requests_get env (ascii ''https://hh.ru/search/vacancy?text='' @ query)) = 200"
    and dec: "detect_and_decode env (content (requests_get env (ascii ''https://hh.ru/search/vacancy?text='' @ query))) = Inr decoded"
    by blast
  define L where "L = List.map_filter (normalize_vacancy env) (select ''.vacancy-serp-item'' (html_parser env decoded))"
  have ok: "\<forall>v\<in>set (List.map_filter (normalize_vacancy env)
                     (select ''.vacancy-serp-item'' (html_parser env decoded))).
           vacancy_refused v = None"
    using get_vacancies_accepts[OF assms dec] .
  have r1: "r1 = number_vacancies (vacancies_id_seq db0) L"
    using assms get_vacancies_ok[OF st dec ok, of db0] by (simp add: Let_def L_def)
  have db1: "db1 = db0\<lparr>vacancies := vacancies db0 @ r1,
                        vacancies_id_seq := vacancies_id_seq db0 + int (length r1)\<rparr>"
    using assms get_vacancies_ok[OF st dec ok, of db0] unfolding r1 by (simp add: Let_def L_def)
  define r2 where "r2 = number_vacancies (vacancies_id_seq db1) L"
  define db2 where "db2 = db1\<lparr>vacancies := vacancies db1 @ r2,
                        vacancies_id_seq := vacancies_id_seq db1 + int (length r2)\<rparr>"
  have g: "get_vacancies env query db1 = (Inr r2, db2)"
    using get_vacancies_ok[OF st dec ok, of db1] by (simp add: Let_def L_def r2_def db2_def)
  have f: "map (\<lambda>v. v\<lparr>vacancy_id := 0\<rparr>) r2 = map (\<lambda>v. v\<lparr>vacancy_id := 0\<rparr>) r1"
    by (simp only: r1 r2_def number_vacancies_fields)
  have len: "length r2 = length r1" by (simp add: r1 r2_def length_number_vacancies)
  have v1: "vacancies db1 = vacancies db0 @ r1" by (simp add: db1)
  have v2: "vacancies db2 = vacancies db1 @ r2" by (simp add: db2_def)
  have l2: "length (vacancies db2) = length (vacancies db1) + length r1" using v2 len by simp
  have dbl: "length (vacancies db2) = 2 * length (vacancies db1) \<longleftrightarrow> vacancies db0 = []"
    using l2 v1 by auto
  have i1: "map vacancy_id r1 = map (\<lambda>i. vacancies_id_seq db0 + 1 + int i) [0..<length r1]"
    unfolding r1 by (simp only: number_vacancies_ids length_number_vacancies)
  have s1: "vacancies_id_seq db1 = vacancies_id_seq db0 + int (length r1)" by (simp add: db1)
  have i2: "map vacancy_id r2 =
            map (\<lambda>i. vacancies_id_seq db0 + int (length r1) + 1 + int i) [0..<length r2]"
    unfolding r2_def s1 by (simp only: number_vacancies_ids length_number_vacancies)
  have dj: "set (map vacancy_id r1) \<inter> set (map vacancy_id r2) = {}"
  proof (rule ccontr)
    assume "set (map vacancy_id r1) \<inter> set (map vacancy_id r2) \<noteq> {}"
    then obtain x where x1: "x \<in> set (map vacancy_id r1)" and x2: "x \<in> set (map vacancy_id r2)"
      by blast
    from x1 obtain i where "i < length r1" "x = vacancies_id_seq db0 + 1 + int i"
      unfolding i1 by auto
    moreover from x2 obtain j where "x = vacancies_id_seq db0 + int (length r1) + 1 + int j"
      unfolding i2 by auto
    ultimately show False by simp
  qed
  from g f i1 i2 dj v1 v2 l2 dbl show ?thesis by blast
qed

theorem second_run_duplicates_witness:
  "\<exists>r2 db2. get_vacancies (site 200 ''<html>'' (page [item engineer])) (ascii ''python'')
        \<lparr>vacancies = [\<lparr>vacancy_id = 1, title = ascii ''Engineer'', description = ascii ''Build stuff'',
             skills = [], employment_format = None, salary = None\<rparr>],
         applicants = [], vacancies_id_seq = 1, applicants_id_seq = 0\<rparr> = (Inr r2, db2)
     \<and> map vacancy_id r2 = [2]
     \<and> length (vacancies db2) = 2
     \<and> vacancies empty_db = []"
proof -
  let ?r = "\<lparr>vacancy_id = 1, title = ascii ''Engineer'', description = ascii ''Build stuff'',
             skills = [], employment_format = None, salary = None\<rparr>"
  let ?db1 = "\<lparr>vacancies = [?r], applicants = [], vacancies_id_seq = 1, applicants_id_seq = 0\<rparr>"
  have h: "get_vacancies (site 200 ''<html>'' (page [item engineer])) (ascii ''python'') empty_db
           = (Inr [?r], ?db1)"
    by code_simp
  from second_run_duplicates [OF h] obtain r2 db2 where
    g: "get_vacancies (site 200 ''<html>'' (page [item engineer])) (ascii ''python'') ?db1 = (Inr r2, db2)"
    and l: "length (vacancies db2) = length (vacancies ?db1) + length [?r]"
    and f: "map (\<lambda>v. v\<lparr>vacancy_id := 0\<rparr>) r2 = map (\<lambda>v. v\<lparr>vacancy_id := 0\<rparr>) [?r]"
    and i: "map vacancy_id r2 =
            map (\<lambda>i. vacancies_id_seq empty_db + int (length [?r]) + 1 + int i) [0..<length r2]"
    by blast
  from f have "length r2 = 1" using length_map [of "\<lambda>v. v\<lparr>vacancy_id := 0\<rparr>" r2] by simp
  with i have a: "map vacancy_id r2 = [2]" by (simp add: empty_db_def)
  from l have b: "length (vacancies db2) = 2" by simp
  have c: "vacancies empty_db = []" by (simp add: empty_db_def)
  show ?thesis
    by (rule exI [of _ r2], rule exI [of _ db2]) (simp add: g a b c)
qed

text \<open>
  Claim C10. The salary of a block with a sidebar is the integer that \<open>int\<close> reads from
  the normalized sidebar text, and absent when \<open>int\<close> fails. The normalized text is the
  sidebar text with the occurrences of the currency token replaced by nothing and then every
  ASCII space removed: it contains no space; an occurrence of the token anywhere
  in the text is removed, not only a trailing one; a text without the token only loses its
  spaces; and every character other than a space and the four characters of the token is
  kept, in order, so tabs and non-breaking spaces remain. Hence a token in the middle of
  the digits still gives a number, and a non-breaking space between the digits gives no
  salary.
\<close>

theorem salary_normalization:
  "parse_salary env (Some el) =
     Inr (case py_int (unicode_todecimal env) (int_max_str_digits env)
                 (salary_text (get_text el)) of
            Inr n \<Rightarrow> Some n | Inl e \<Rightarrow> None)
   \<and> salary_text t = filter (\<lambda>c. c \<noteq> 32) (py_replace rub [] t)
   \<and> 32 \<notin> set (salary_text t)
   \<and> salary_text (a @ rub @ b) = salary_text a @ salary_text b
   \<and> ((\<forall>a b. t \<noteq> a @ rub @ b) \<longrightarrow> salary_text t = filter (\<lambda>c. c \<noteq> 32) t)
   \<and> filter (\<lambda>c. c \<notin> set rub \<and> c \<noteq> 32) (salary_text t)
       = filter (\<lambda>c. c \<notin> set rub \<and> c \<noteq> 32) t
   \<and> parse_salary env (Some (NavigableString (ascii ''1'' @ rub @ ascii ''000''))) = Inr (Some 1000)
   \<and> parse_salary env (Some (NavigableString (ascii ''1'' @ [160] @ ascii ''000 '' @ rub))) = Inr None"
proof -
  have p: "parse_salary env (Some el) =
     Inr (case py_int (unicode_todecimal env) (int_max_str_digits env)
                 (salary_text (get_text el)) of
            Inr n \<Rightarrow> Some n | Inl e \<Rightarrow> None)"
    by (simp add: parse_salary_total)
  have s: "32 \<notin> set (salary_text t)" by (simp add: salary_text_filter)
  have m: "parse_salary env (Some (NavigableString (ascii ''1'' @ rub @ ascii ''000''))) = Inr (Some 1000)"
    by (simp add: parse_salary_total mid_token py_int_1000)
  have n: "parse_salary env (Some (NavigableString (ascii ''1'' @ [160] @ ascii ''000 '' @ rub))) = Inr None"
    by (simp add: parse_salary_total nbsp_text py_int_nbsp)
  from p s m n salary_text_filter[of t] salary_text_append_rub[of a b] salary_text_absent[of t]
    salary_text_others[of t]
  show ?thesis by blast
qed

theorem salary_normalization_witness:
  "(\<forall>a b. [49, 9, 48, 32, 48] \<noteq> a @ rub @ b)
   \<and> salary_text [49, 9, 48, 32, 48] = [49, 9, 48, 48]
   \<and> parse_salary (site 200 ''<html>'' listing) (Some (NavigableString [49, 9, 48, 32, 48])) = Inr None"
proof -
  have h: "\<forall>a b. [49, 9, 48, 32, 48] \<noteq> a @ rub @ (b :: nat list)"
  proof (intro allI notI)
    fix a b :: "nat list"
    assume "[49, 9, 48, 32, 48] = a @ rub @ b"
    then have "set rub \<subseteq> set [49, 9, 48, 32, 48 :: nat]" by (metis set_append Un_upper1 Un_upper2 subset_trans)
    then show False by (simp add: rub_def)
  qed
  have e: "py_int (unicode_todecimal (site 200 ''<html>'' listing))
             (int_max_str_digits (site 200 ''<html>'' listing)) [49, 9, 48, 48] = Inl ValueError"
    by code_simp
  note T = salary_normalization [of "site 200 ''<html>'' listing" "NavigableString [49, 9, 48, 32, 48]"
      "[49, 9, 48, 32, 48]" "[]" "[]"]
  from T h have "salary_text [49, 9, 48, 32, 48] = filter (\<lambda>c. c \<noteq> 32) [49, 9, 48, 32, 48]"
    by blast
  then have t: "salary_text [49, 9, 48, 32, 48] = [49, 9, 48, 48]" by simp
  from T have p: "parse_salary (site 200 ''<html>'' listing) (Some (NavigableString [49, 9, 48, 32, 48])) =
     Inr (case py_int (unicode_todecimal (site 200 ''<html>'' listing)) (int_max_str_digits (site 200 ''<html>'' listing))
                 (salary_text (get_text (NavigableString [49, 9, 48, 32, 48]))) of
            Inr n \<Rightarrow> Some n | Inl e \<Rightarrow> None)"
    by blast
  from p have "parse_salary (site 200 ''<html>'' listing) (Some (NavigableString [49, 9, 48, 32, 48])) = Inr None"
    by (simp add: t e)
  with h t show ?thesis by blast
qed

text \<open>
  Claim C6, as stated, fails: \<open>int\<close> accepts a sign, so a sidebar text that reads minus five
  and the currency token is stored as the salary \<open>-5\<close>.
\<close>

theorem stored_salary_sign_counterexample:
  "get_vacancies (site 200 ''<html>'' (page [item minus_five])) (ascii ''python'') empty_db =
     (Inr [\<lparr>vacancy_id = 1, title = ascii ''Engineer'', description = ascii ''Build stuff'',
             skills = [], employment_format = None, salary = Some (- 5)\<rparr>],
      \<lparr>vacancies =
         [\<lparr>vacancy_id = 1, title = ascii ''Engineer'', description = ascii ''Build stuff'',
            skills = [], employment_format = None, salary = Some (- 5)\<rparr>],
       applicants = [], vacancies_id_seq = 1, applicants_id_seq = 0\<rparr>)"
  by code_simp

text \<open>
  Claim C6, amended. Every vacancy record that the loop constructs and stores has the salary
  of one of the blocks: absent, or the integer read from the normalized sidebar text of that
  block. The integer is negative only when that sidebar text contains a minus sign, so it is
  non-negative for every sidebar text without one.
\<close>

theorem stored_salary_sign:
  assumes "vacancies_loop env blocks db [] = (Inr rs, db')" and "r \<in> set rs"
  shows "\<exists>b\<in>set blocks. salary r = salary_of env b \<and>
           (salary r = None \<or>
            (\<exists>n. salary r = Some n \<and>
                 (n < 0 \<longrightarrow>
                    (\<exists>el. select_one ''.vacancy-serp-item__sidebar'' b = Some el
                          \<and> 45 \<in> set (get_text el)))))"
proof -
  from assms have "r \<in> set (number_vacancies (vacancies_id_seq db)
                        (List.map_filter (normalize_vacancy env) blocks))"
    using vacancies_loop_eq[OF assms(1)] by simp
  then obtain v k where v: "v \<in> set (List.map_filter (normalize_vacancy env) blocks)"
    and r: "r = v\<lparr>vacancy_id := k\<rparr>"
    using number_vacancies_mem by blast
  from v obtain b where b: "b \<in> set blocks" "normalize_vacancy env b = Some v"
    using map_filter_mem by fast
  have s: "salary r = salary_of env b" using r normalize_vacancy_salary[OF b(2)] by simp
  have "salary r = None \<or>
            (\<exists>n. salary r = Some n \<and>
                 (n < 0 \<longrightarrow>
                    (\<exists>el. select_one ''.vacancy-serp-item__sidebar'' b = Some el
                          \<and> 45 \<in> set (get_text el))))"
  proof (cases "salary r")
    case None
    then show ?thesis by simp
  next
    case (Some n)
    with s salary_of_negative[of env b n] show ?thesis by auto
  qed
  with b(1) s show ?thesis by blast
qed

theorem stored_salary_sign_witness:
  "vacancies_loop (site 200 ''<html>'' listing) [item minus_five] empty_db [] =
     (Inr [\<lparr>vacancy_id = 1, title = ascii ''Engineer'', description = ascii ''Build stuff'',
             skills = [], employment_format = None, salary = Some (- 5)\<rparr>],
      \<lparr>vacancies =
         [\<lparr>vacancy_id = 1, title = ascii ''Engineer'', description = ascii ''Build stuff'',
            skills = [], employment_format = None, salary = Some (- 5)\<rparr>],
       applicants = [], vacancies_id_seq = 1, applicants_id_seq = 0\<rparr>)
   \<and> salary_of (site 200 ''<html>'' listing) (item minus_five) = Some (- 5)
   \<and> (\<exists>el. select_one ''.vacancy-serp-item__sidebar'' (item minus_five) = Some el
            \<and> 45 \<in> set (get_text el))"
proof -
  let ?r = "\<lparr>vacancy_id = 1, title = ascii ''Engineer'', description = ascii ''Build stuff'',
             skills = [], employment_format = None, salary = Some (- 5)\<rparr>"
  have l: "vacancies_loop (site 200 ''<html>'' listing) [item minus_five] empty_db [] =
     (Inr [?r], \<lparr>vacancies = [?r], applicants = [], vacancies_id_seq = 1, applicants_id_seq = 0\<rparr>)"
    by code_simp
  have m: "?r \<in> set [?r]" by simp
  from stored_salary_sign [OF l m] obtain b where b: "b \<in> set [item minus_five]"
    and s: "salary ?r = salary_of (site 200 ''<html>'' listing) b"
    and n: "salary ?r = None \<or>
            (\<exists>n. salary ?r = Some n \<and>
                 (n < 0 \<longrightarrow>
                    (\<exists>el. select_one ''.vacancy-serp-item__sidebar'' b = Some el
                          \<and> 45 \<in> set (get_text el))))"
    by blast
  from b have e: "b = item minus_five" by simp
  from s e have "salary_of (site 200 ''<html>'' listing) (item minus_five) = Some (- 5)"
    by simp
  moreover from n e have "\<exists>el. select_one ''.vacancy-serp-item__sidebar'' (item minus_five) = Some el
            \<and> 45 \<in> set (get_text el)"
    by simp
  ultimately have "salary_of (site 200 ''<html>'' listing) (item minus_five) = Some (- 5)
    \<and> (\<exists>el. select_one ''.vacancy-serp-item__sidebar'' (item minus_five) = Some el
            \<and> 45 \<in> set (get_text el))" by blast
  with l show ?thesis by blast
qed

text \<open>
  Claim C3, as stated, fails: the text made of the digit one, a tab, three zeros and the
  currency token matches the pattern and writes the number 1000, but only ASCII spaces are
  removed, \<open>int\<close> rejects the tab between the digits, and the salary is absent.
\<close>

theorem salary_of_digits_and_spaces_counterexample:
  "matches_salary_pattern (unicode_todecimal (site 200 ''<html>'' listing)) (ascii ''1'' @ [9] @ ascii ''000'' @ rub)
   \<and> stripped_value (unicode_todecimal (site 200 ''<html>'' listing)) (ascii ''1'' @ [9] @ ascii ''000'') = 1000
   \<and> parse_salary (site 200 ''<html>'' listing)
        (Some (NavigableString (ascii ''1'' @ [9] @ ascii ''000'' @ rub))) = Inr None"
  by code_simp

text \<open>
  Claim C3, amended. For every sidebar text that consists of decimal digits and ASCII
  spaces, with at least one digit and no more digits than the interpreter converts,
  followed by the currency token, the salary is the number that the digits write. For
  every text at all, parsing the salary raises nothing, and a text whose normalized form \<open>int\<close>
  rejects has no salary.
\<close>

theorem salary_of_digits_and_spaces:
  "(get_text el = body @ rub \<and>
    (\<forall>c\<in>set body. re_digit (unicode_todecimal env) c \<or> c = 32) \<and>
    (\<exists>c\<in>set body. re_digit (unicode_todecimal env) c) \<and>
    (length (filter (re_digit (unicode_todecimal env)) body) \<le> 640 \<or>
     int_max_str_digits env = 0 \<or>
     length (filter (re_digit (unicode_todecimal env)) body) \<le> int_max_str_digits env)
    \<longrightarrow> parse_salary env (Some el) = Inr (Some (int (stripped_value (unicode_todecimal env) body))))
   \<and> (\<exists>s. parse_salary env x = Inr s)
   \<and> (\<forall>e. py_int (unicode_todecimal env) (int_max_str_digits env) (salary_text (get_text el)) = Inl e
          \<longrightarrow> parse_salary env (Some el) = Inr None)"
proof -
  let ?td = "unicode_todecimal env"
  have A: "parse_salary env (Some el) = Inr (Some (int (stripped_value ?td body)))"
    if t: "get_text el = body @ rub"
      and b: "\<forall>c\<in>set body. re_digit ?td c \<or> c = 32"
      and d: "\<exists>c\<in>set body. re_digit ?td c"
      and l: "length (filter (re_digit ?td) body) \<le> 640 \<or> int_max_str_digits env = 0 \<or>
              length (filter (re_digit ?td) body) \<le> int_max_str_digits env"
  proof -
    let ?ds = "filter (re_digit ?td) body"
    have st: "salary_text (get_text el) = ?ds" using t salary_text_body[OF b] by simp
    have ne: "?ds \<noteq> []" using d by (simp add: filter_empty_conv)
    have all: "\<forall>c\<in>set ?ds. re_digit ?td c" by simp
    from py_int_digits[OF all ne l]
    show ?thesis by (simp add: parse_salary_total st stripped_value_def)
  qed
  have B: "\<exists>s. parse_salary env x = Inr s" by (simp add: parse_salary_total)
  have C: "\<forall>e. py_int ?td (int_max_str_digits env) (salary_text (get_text el)) = Inl e
          \<longrightarrow> parse_salary env (Some el) = Inr None"
    by (simp add: parse_salary_total)
  from A B C show ?thesis by blast
qed

theorem salary_of_digits_and_spaces_witness:
  "parse_salary (site 200 ''<html>'' listing)
     (Some (NavigableString ([49, 32, 1634, 48, 48, 32] @ rub))) = Inr (Some 1200)
   \<and> (\<exists>s. parse_salary (site 200 ''<html>'' listing) (Some (NavigableString (ascii ''12 USD''))) = Inr s)
   \<and> py_int (unicode_todecimal (site 200 ''<html>'' listing)) (int_max_str_digits (site 200 ''<html>'' listing))
        (salary_text (get_text (NavigableString (ascii ''12 USD'')))) = Inl ValueError
   \<and> parse_salary (site 200 ''<html>'' listing) (Some (NavigableString (ascii ''12 USD''))) = Inr None"
proof -
  let ?W = "site 200 ''<html>'' listing"
  let ?body = "[49, 32, 1634, 48, 48, 32] :: nat list"
  note T = salary_of_digits_and_spaces [of "NavigableString (?body @ rub)" ?body ?W
      "Some (NavigableString (ascii ''12 USD''))"]
  note U = salary_of_digits_and_spaces [of "NavigableString (ascii ''12 USD'')" ?body ?W
      "Some (NavigableString (ascii ''12 USD''))"]
  have h1: "get_text (NavigableString (?body @ rub)) = ?body @ rub" by simp
  have h2: "\<forall>c\<in>set ?body. re_digit (unicode_todecimal ?W) c \<or> c = 32"
    by (simp add: re_digit_def is_ascii_digit_def Py_UNICODE_ISSPACE_def site_def)
  have h3: "\<exists>c\<in>set ?body. re_digit (unicode_todecimal ?W) c"
    by (simp add: re_digit_def is_ascii_digit_def Py_UNICODE_ISSPACE_def site_def)
  have h4: "length (filter (re_digit (unicode_todecimal ?W)) ?body) \<le> 640"
    by (simp add: re_digit_def is_ascii_digit_def Py_UNICODE_ISSPACE_def site_def)
  have v: "stripped_value (unicode_todecimal ?W) ?body = 1200"
    by (simp add: stripped_value_def digits_value_def digit_of_def re_digit_def
        is_ascii_digit_def Py_UNICODE_ISSPACE_def site_def)
  from T h1 h2 h3 h4 have "parse_salary ?W (Some (NavigableString (?body @ rub)))
      = Inr (Some (int (stripped_value (unicode_todecimal ?W) ?body)))" by blast
  then have a: "parse_salary ?W (Some (NavigableString (?body @ rub))) = Inr (Some 1200)"
    by (simp add: v)
  from T have b: "\<exists>s. parse_salary ?W (Some (NavigableString (ascii ''12 USD''))) = Inr s" by blast
  have e: "py_int (unicode_todecimal ?W) (int_max_str_digits ?W)
        (salary_text (get_text (NavigableString (ascii ''12 USD'')))) = Inl ValueError" by code_simp
  from U e have c: "parse_salary ?W (Some (NavigableString (ascii ''12 USD''))) = Inr None" by blast
  from a b e c show ?thesis by blast
qed

text \<open>
  Claim C1, as stated, fails: nothing in either handler catches an exception of the two
  decoding steps or supplies another encoding. \<open>chardet.detect\<close> reports no encoding for an
  empty body, and decoding with \<open>None\<close> raises \<open>TypeError\<close>; a body that is not UTF-8, such
  as the single byte FF, already fails the first, strict decoding.
\<close>

theorem detect_and_decode_counterexample:
  "get_vacancies (site 200 [] listing) (ascii ''python'') empty_db = (Inl TypeError, empty_db)
   \<and> get_applicants (site 200 [] listing) (ascii ''python'') empty_db = (Inl TypeError, empty_db)
   \<and> get_vacancies (site 200 [CHR 0xFF] listing) (ascii ''python'') empty_db
       = (Inl UnicodeDecodeError, empty_db)
   \<and> get_applicants (site 200 [CHR 0xFF] listing) (ascii ''python'') empty_db
       = (Inl UnicodeDecodeError, empty_db)"
  by code_simp

text \<open>
  Claim C1, amended. The step has no fallback encoding. It raises \<open>UnicodeDecodeError\<close> for
  a body that is not valid UTF-8 and \<open>TypeError\<close> when the detector returns no label;
  otherwise its outcome is that of decoding the body under the detected label, an exception
  included. So it returns text exactly when the body is valid UTF-8, the detector returns a
  label and decoding under that label succeeds. After a fetch with status 200, an exception
  of the step leaves either handler as it is, with the storage unchanged.
\<close>

theorem detect_and_decode_outcomes:
  "(\<forall>e. utf_8_decode body = Inl e \<longrightarrow> detect_and_decode env body = Inl UnicodeDecodeError)
   \<and> (\<forall>u. utf_8_decode body = Inr u \<and> chardet_detect env body = None \<longrightarrow>
          detect_and_decode env body = Inl TypeError)
   \<and> (\<forall>u label. utf_8_decode body = Inr u \<and> chardet_detect env body = Some label \<longrightarrow>
          detect_and_decode env body =
            (if label = ''utf-8'' then Inr u else codec_decode env label body))
   \<and> ((\<exists>t. detect_and_decode env body = Inr t) \<longleftrightarrow>
        (\<exists>u label t. utf_8_decode body = Inr u \<and> chardet_detect env body = Some label
                    \<and> bytes_decode env (Some label) body = Inr t))
   \<and> (\<forall>x. status_code (requests_get env (ascii ''https://hh.ru/search/vacancy?text='' @ query)) = 200
          \<and> body = content (requests_get env (ascii ''https://hh.ru/search/vacancy?text='' @ query))
          \<and> detect_and_decode env body = Inl x \<longrightarrow>
          get_vacancies env query db = (Inl x, db))
   \<and> (\<forall>x. status_code (requests_get env (ascii ''https://hh.ru/search/resume?text='' @ query)) = 200
          \<and> body = content (requests_get env (ascii ''https://hh.ru/search/resume?text='' @ query))
          \<and> detect_and_decode env body = Inl x \<longrightarrow>
          get_applicants env query db = (Inl x, db))"
proof -
  have a: "\<forall>e. utf_8_decode body = Inl e \<longrightarrow> detect_and_decode env body = Inl UnicodeDecodeError"
    using utf_8_decode_error[of body]
    by (auto simp: detect_and_decode_def bytes_decode_def)
  have b: "\<forall>u. utf_8_decode body = Inr u \<and> chardet_detect env body = None \<longrightarrow>
          detect_and_decode env body = Inl TypeError"
    by (simp add: detect_and_decode_def bytes_decode_def)
  have c: "\<forall>u label. utf_8_decode body = Inr u \<and> chardet_detect env body = Some label \<longrightarrow>
          detect_and_decode env body =
            (if label = ''utf-8'' then Inr u else codec_decode env label body)"
    by (simp add: detect_and_decode_def bytes_decode_def)
  have d: "(\<exists>t. detect_and_decode env body = Inr t) \<longleftrightarrow>
        (\<exists>u label t. utf_8_decode body = Inr u \<and> chardet_detect env body = Some label
                    \<and> bytes_decode env (Some label) body = Inr t)"
    by (cases "utf_8_decode body"; cases "chardet_detect env body")
       (auto simp: detect_and_decode_def bytes_decode_def)
  have e: "\<forall>x. status_code (requests_get env (ascii ''https://hh.ru/search/vacancy?text='' @ query)) = 200
          \<and> body = content (requests_get env (ascii ''https://hh.ru/search/vacancy?text='' @ query))
          \<and> detect_and_decode env body = Inl x \<longrightarrow>
          get_vacancies env query db = (Inl x, db)"
    by (auto simp: get_vacancies_def Let_def)
  have f: "\<forall>x. status_code (requests_get env (ascii ''https://hh.ru/search/resume?text='' @ query)) = 200
          \<and> body = content (requests_get env (ascii ''https://hh.ru/search/resume?text='' @ query))
          \<and> detect_and_decode env body = Inl x \<longrightarrow>
          get_applicants env query db = (Inl x, db)"
    by (auto simp: get_applicants_def Let_def)
  from a b c d e f show ?thesis by blast
qed

theorem detect_and_decode_outcomes_witness:
  "detect_and_decode (site 200 [CHR 0xFF] listing) [CHR 0xFF] = Inl UnicodeDecodeError
   \<and> detect_and_decode (site 200 [] listing) [] = Inl TypeError
   \<and> detect_and_decode (site 200 ''<html>'' listing) ''<html>'' = Inr (ascii ''<html>'')
   \<and> get_vacancies (site 200 [] listing) (ascii ''python'') empty_db = (Inl TypeError, empty_db)
   \<and> get_applicants (site 200 [] listing) (ascii ''python'') empty_db = (Inl TypeError, empty_db)"
proof -
  let ?q = "ascii ''python''"
  note A = detect_and_decode_outcomes [of "[CHR 0xFF]" "site 200 [CHR 0xFF] listing" ?q empty_db]
  note B = detect_and_decode_outcomes [of "[]" "site 200 [] listing" ?q empty_db]
  note C = detect_and_decode_outcomes [of "''<html>''" "site 200 ''<html>'' listing" ?q empty_db]
  have a1: "utf_8_decode [CHR 0xFF] = Inl UnicodeDecodeError" by code_simp
  have b1: "utf_8_decode [] = Inr []" by code_simp
  have b2: "chardet_detect (site 200 [] listing) [] = None" by (simp add: site_def)
  have c1: "utf_8_decode ''<html>'' = Inr (ascii ''<html>'')" by code_simp
  have c2: "chardet_detect (site 200 ''<html>'' listing) ''<html>'' = Some ''ascii''"
    by (simp add: site_def)
  have c3: "codec_decode (site 200 ''<html>'' listing) ''ascii'' ''<html>'' = Inr (ascii ''<html>'')"
    by code_simp
  have s1: "status_code (requests_get (site 200 [] listing) (ascii ''https://hh.ru/search/vacancy?text='' @ ?q)) = 200"
    and s2: "[] = content (requests_get (site 200 [] listing) (ascii ''https://hh.ru/search/vacancy?text='' @ ?q))"
    and s3: "status_code (requests_get (site 200 [] listing) (ascii ''https://hh.ru/search/resume?text='' @ ?q)) = 200"
    and s4: "[] = content (requests_get (site 200 [] listing) (ascii ''https://hh.ru/search/resume?text='' @ ?q))"
    by (simp_all add: site_def)
  from A a1 have r1: "detect_and_decode (site 200 [CHR 0xFF] listing) [CHR 0xFF] = Inl UnicodeDecodeError"
    by blast
  from B b1 b2 have r2: "detect_and_decode (site 200 [] listing) [] = Inl TypeError" by blast
  from C c1 c2 have "detect_and_decode (site 200 ''<html>'' listing) ''<html>'' =
     (if ''ascii'' = ''utf-8'' then Inr (ascii ''<html>'')
      else codec_decode (site 200 ''<html>'' listing) ''ascii'' ''<html>'')" by blast
  then have r3: "detect_and_decode (site 200 ''<html>'' listing) ''<html>'' = Inr (ascii ''<html>'')"
    by (simp add: c3)
  from B s1 s2 r2 have r4: "get_vacancies (site 200 [] listing) ?q empty_db = (Inl TypeError, empty_db)"
    by blast
  from B s3 s4 r2 have r5: "get_applicants (site 200 [] listing) ?q empty_db = (Inl TypeError, empty_db)"
    by blast
  from r1 r2 r3 r4 r5 show ?thesis by blast
qed

text \<open>
  Claim C2, as stated, fails. The response model of \<open>/vacancies\<close> has no salary field: a
  vacancy stored with the salary 1000 is returned with its title, description, skills,
  employment format and identity only. And the block with a title and a description but no
  sidebar and no meta-info is stored, but its employment format \<open>None\<close> does not validate
  against the response model, so the route returns no list. Such a block is not even stored
  when its title holds U+0000: the commit raises \<open>ValueError\<close>.
\<close>

theorem vacancies_response_fields_counterexample:
  "vacancies_route (site 200 ''<html>'' (page [item paid])) (ascii ''python'') empty_db =
     (Inr [[(''title'', JStr (ascii ''Engineer'')), (''description'', JStr (ascii ''Build stuff'')),
            (''skills'', JStr []), (''employment_format'', JStr (ascii ''Remote'')),
            (''id'', JInt 1)]],
      \<lparr>vacancies =
         [\<lparr>vacancy_id = 1, title = ascii ''Engineer'', description = ascii ''Build stuff'',
            skills = [], employment_format = Some (ascii ''Remote''), salary = Some 1000\<rparr>],
       applicants = [], vacancies_id_seq = 1, applicants_id_seq = 0\<rparr>)
   \<and> vacancies_route (site 200 ''<html>'' (page [item engineer])) (ascii ''python'') empty_db =
     (Inl ResponseValidationError,
      \<lparr>vacancies =
         [\<lparr>vacancy_id = 1, title = ascii ''Engineer'', description = ascii ''Build stuff'',
            skills = [], employment_format = None, salary = None\<rparr>],
       applicants = [], vacancies_id_seq = 1, applicants_id_seq = 0\<rparr>)
   \<and> get_vacancies (site 200 ''<html>'' (page [item nul_title])) (ascii ''python'') empty_db =
     (Inl ValueError, empty_db)"
  by code_simp

text \<open>
  Claim C2, amended. When \<open>GET /vacancies\<close> returns a list, the handler has returned the
  stored records in order and the list has, for each of them, exactly the fields \<open>title\<close>,
  \<open>description\<close>, \<open>skills\<close>, \<open>employment_format\<close> and \<open>id\<close> with the values of the record;
  the salary is stored but is no field of the response. A block with a non-empty title and
  description but no sidebar and no meta-info match, whose texts the storage accepts (none
  holds U+0000 or a surrogate), is stored, and returned by the handler, with salary and
  employment format absent.
\<close>

theorem vacancies_response_fields:
  "(vacancies_route env query db = (Inr items, db') \<longrightarrow>
      (\<exists>rows. get_vacancies env query db = (Inr rows, db') \<and>
         list_all2 (\<lambda>row entry. \<exists>e. employment_format row = Some e \<and>
              entry = [(''title'', JStr (title row)), (''description'', JStr (description row)),
                        (''skills'', JStr (skills row)), (''employment_format'', JStr e),
                        (''id'', JInt (vacancy_id row))]) rows items)
      \<and> (\<forall>entry\<in>set items.
            map fst entry = [''title'', ''description'', ''skills'', ''employment_format'', ''id'']))
   \<and> (select_one ''.vacancy-serp-item__title'' b = Some t \<and> get_text t \<noteq> [] \<and>
      select_one ''.vacancy-serp-item__snippet'' b = Some d \<and> get_text d \<noteq> [] \<and>
      select_one ''.vacancy-serp-item__sidebar'' b = None \<and>
      select_one ''.vacancy-serp-item__meta-info'' b = None \<and>
      text_refused (get_text t) = None \<and> text_refused (get_text d) = None \<and>
      text_refused (py_join (ascii '', '')
                      (map get_text (select ''.bloko-tag__section_text'' b))) = None \<longrightarrow>
      vacancies_loop env [b] db [] =
        (Inr [\<lparr>vacancy_id = vacancies_id_seq db + 1, title = get_text t, description = get_text d,
               skills = py_join (ascii '', '')
                          (map get_text (select ''.bloko-tag__section_text'' b)),
               employment_format = None, salary = None\<rparr>],
         db\<lparr>vacancies := vacancies db @
               [\<lparr>vacancy_id = vacancies_id_seq db + 1, title = get_text t, description = get_text d,
                 skills = py_join (ascii '', '')
                            (map get_text (select ''.bloko-tag__section_text'' b)),
                 employment_format = None, salary = None\<rparr>],
            vacancies_id_seq := vacancies_id_seq db + 1\<rparr>))"
proof -
  have A: "(\<exists>rows. get_vacancies env query db = (Inr rows, db') \<and>
         list_all2 (\<lambda>row entry. \<exists>e. employment_format row = Some e \<and>
              entry = [(''title'', JStr (title row)), (''description'', JStr (description row)),
                        (''skills'', JStr (skills row)), (''employment_format'', JStr e),
                        (''id'', JInt (vacancy_id row))]) rows items)
      \<and> (\<forall>entry\<in>set items.
            map fst entry = [''title'', ''description'', ''skills'', ''employment_format'', ''id''])"
    if r: "vacancies_route env query db = (Inr items, db')"
  proof -
    from r obtain rows where g: "get_vacancies env query db = (Inr rows, db')"
      and l: "response_list VacancyResponse rows = Inr items"
      by (auto simp: vacancies_route_def split: prod.splits sum.splits)
    from response_list_Inr[OF l]
    have la: "list_all2 (\<lambda>row entry. VacancyResponse row = Inr entry) rows items" .
    have l2: "list_all2 (\<lambda>row entry. \<exists>e. employment_format row = Some e \<and>
              entry = [(''title'', JStr (title row)), (''description'', JStr (description row)),
                        (''skills'', JStr (skills row)), (''employment_format'', JStr e),
                        (''id'', JInt (vacancy_id row))]) rows items"
      by (rule list_all2_mono[OF la]) (rule VacancyResponse_Inr)
    have k: "\<forall>entry\<in>set items.
            map fst entry = [''title'', ''description'', ''skills'', ''employment_format'', ''id'']"
    proof
      fix entry assume "entry \<in> set items"
      then obtain i where "i < length items" "items ! i = entry" by (auto simp: in_set_conv_nth)
      with l2 show "map fst entry = [''title'', ''description'', ''skills'', ''employment_format'', ''id'']"
        by (auto simp: list_all2_conv_all_nth)
    qed
    from g l2 k show ?thesis by blast
  qed
  have B: "select_one ''.vacancy-serp-item__title'' b = Some t \<and> get_text t \<noteq> [] \<and>
      select_one ''.vacancy-serp-item__snippet'' b = Some d \<and> get_text d \<noteq> [] \<and>
      select_one ''.vacancy-serp-item__sidebar'' b = None \<and>
      select_one ''.vacancy-serp-item__meta-info'' b = None \<and>
      text_refused (get_text t) = None \<and> text_refused (get_text d) = None \<and>
      text_refused (py_join (ascii '', '')
                      (map get_text (select ''.bloko-tag__section_text'' b))) = None \<longrightarrow>
      vacancies_loop env [b] db [] =
        (Inr [\<lparr>vacancy_id = vacancies_id_seq db + 1, title = get_text t, description = get_text d,
               skills = py_join (ascii '', '')
                          (map get_text (select ''.bloko-tag__section_text'' b)),
               employment_format = None, salary = None\<rparr>],
         db\<lparr>vacancies := vacancies db @
               [\<lparr>vacancy_id = vacancies_id_seq db + 1, title = get_text t, description = get_text d,
                 skills = py_join (ascii '', '')
                            (map get_text (select ''.bloko-tag__section_text'' b)),
                 employment_format = None, salary = None\<rparr>],
            vacancies_id_seq := vacancies_id_seq db + 1\<rparr>)"
    by (simp add: parse_salary_total add_vacancy_def vacancy_refused_def Let_def)
  from A B show ?thesis by blast
qed

theorem vacancies_response_fields_witness:
  "vacancies_route (site 200 ''<html>'' (page [item paid])) (ascii ''python'') empty_db =
     (Inr [[(''title'', JStr (ascii ''Engineer'')), (''description'', JStr (ascii ''Build stuff'')),
            (''skills'', JStr []), (''employment_format'', JStr (ascii ''Remote'')),
            (''id'', JInt 1)]],
      \<lparr>vacancies =
         [\<lparr>vacancy_id = 1, title = ascii ''Engineer'', description = ascii ''Build stuff'',
            skills = [], employment_format = Some (ascii ''Remote''), salary = Some 1000\<rparr>],
       applicants = [], vacancies_id_seq = 1, applicants_id_seq = 0\<rparr>)
   \<and> (\<exists>rows. get_vacancies (site 200 ''<html>'' (page [item paid])) (ascii ''python'') empty_db =
        (Inr rows,
         \<lparr>vacancies =
            [\<lparr>vacancy_id = 1, title = ascii ''Engineer'', description = ascii ''Build stuff'',
               skills = [], employment_format = Some (ascii ''Remote''), salary = Some 1000\<rparr>],
          applicants = [], vacancies_id_seq = 1, applicants_id_seq = 0\<rparr>)
        \<and> length rows = 1)
   \<and> select_one ''.vacancy-serp-item__sidebar'' (item engineer) = None
   \<and> select_one ''.vacancy-serp-item__meta-info'' (item engineer) = None
   \<and> vacancies_loop (site 200 ''<html>'' (page [item engineer])) [item engineer] empty_db [] =
        (Inr [\<lparr>vacancy_id = 1, title = ascii ''Engineer'', description = ascii ''Build stuff'',
               skills = [], employment_format = None, salary = None\<rparr>],
         \<lparr>vacancies =
            [\<lparr>vacancy_id = 1, title = ascii ''Engineer'', description = ascii ''Build stuff'',
               skills = [], employment_format = None, salary = None\<rparr>],
          applicants = [], vacancies_id_seq = 1, applicants_id_seq = 0\<rparr>)"
proof -
  let ?W = "site 200 ''<html>'' (page [item paid])" and ?E = "site 200 ''<html>'' (page [item engineer])"
  let ?q = "ascii ''python''"
  let ?items = "[[(''title'', JStr (ascii ''Engineer'')), (''description'', JStr (ascii ''Build stuff'')),
            (''skills'', JStr []), (''employment_format'', JStr (ascii ''Remote'')),
            (''id'', JInt 1)]]"
  let ?db = "\<lparr>vacancies =
         [\<lparr>vacancy_id = 1, title = ascii ''Engineer'', description = ascii ''Build stuff'',
            skills = [], employment_format = Some (ascii ''Remote''), salary = Some 1000\<rparr>],
       applicants = [], vacancies_id_seq = 1, applicants_id_seq = 0\<rparr>"
  let ?t = "element ''vacancy-serp-item__title'' (ascii ''Engineer'')"
  let ?d = "element ''vacancy-serp-item__snippet'' (ascii ''Build stuff'')"
  have r: "vacancies_route ?W ?q empty_db = (Inr ?items, ?db)" by code_simp
  have b1: "select_one ''.vacancy-serp-item__title'' (item engineer) = Some ?t" by code_simp
  have b2: "get_text ?t \<noteq> []" by code_simp
  have b3: "select_one ''.vacancy-serp-item__snippet'' (item engineer) = Some ?d" by code_simp
  have b4: "get_text ?d \<noteq> []" by code_simp
  have b5: "select_one ''.vacancy-serp-item__sidebar'' (item engineer) = None" by code_simp
  have b6: "select_one ''.vacancy-serp-item__meta-info'' (item engineer) = None" by code_simp
  have b7: "text_refused (get_text ?t) = None"
    by (simp add: text_refused_def is_surrogate_def element_def ascii_def)
  have b8: "text_refused (get_text ?d) = None"
    by (simp add: text_refused_def is_surrogate_def element_def ascii_def)
  have b9: "text_refused (py_join (ascii '', '')
              (map get_text (select ''.bloko-tag__section_text'' (item engineer)))) = None"
    by code_simp
  note T = vacancies_response_fields [of ?W ?q empty_db ?items ?db "item engineer" ?t ?d]
  note U = vacancies_response_fields [of ?E ?q empty_db ?items ?db "item engineer" ?t ?d]
  from T r obtain rows where g: "get_vacancies ?W ?q empty_db = (Inr rows, ?db)"
    and l: "list_all2 (\<lambda>row entry. \<exists>e. employment_format row = Some e \<and>
              entry = [(''title'', JStr (title row)), (''description'', JStr (description row)),
                        (''skills'', JStr (skills row)), (''employment_format'', JStr e),
                        (''id'', JInt (vacancy_id row))]) rows ?items"
    by blast
  from l have n: "length rows = 1" by (simp add: list_all2_lengthD)
  from U b1 b2 b3 b4 b5 b6 b7 b8 b9
  have "vacancies_loop ?E [item engineer] empty_db [] =
        (Inr [\<lparr>vacancy_id = vacancies_id_seq empty_db + 1, title = get_text ?t, description = get_text ?d,
               skills = py_join (ascii '', '')
                          (map get_text (select ''.bloko-tag__section_text'' (item engineer))),
               employment_format = None, salary = None\<rparr>],
         empty_db\<lparr>vacancies := vacancies empty_db @
               [\<lparr>vacancy_id = vacancies_id_seq empty_db + 1, title = get_text ?t, description = get_text ?d,
                 skills = py_join (ascii '', '')
                            (map get_text (select ''.bloko-tag__section_text'' (item engineer))),
                 employment_format = None, salary = None\<rparr>],
            vacancies_id_seq := vacancies_id_seq empty_db + 1\<rparr>)"
    by blast
  moreover have "select ''.bloko-tag__section_text'' (item engineer) = []" by code_simp
  ultimately have v: "vacancies_loop ?E [item engineer] empty_db [] =
        (Inr [\<lparr>vacancy_id = 1, title = ascii ''Engineer'', description = ascii ''Build stuff'',
               skills = [], employment_format = None, salary = None\<rparr>],
         \<lparr>vacancies =
            [\<lparr>vacancy_id = 1, title = ascii ''Engineer'', description = ascii ''Build stuff'',
               skills = [], employment_format = None, salary = None\<rparr>],
          applicants = [], vacancies_id_seq = 1, applicants_id_seq = 0\<rparr>)"
    by (simp add: empty_db_def element_def)
  from r g n b5 b6 v show ?thesis by blast
qed

end
